theory Spec2Isabelle
  imports Complex_Main "HOL-Library.Word" "HOL-Library.Signed_Division" "HOL-Library.Log_Nat"
begin

section \<open>TCP BBR with the DCTCP-style ECN estimator (src/internet/model/tcp-bbr.cc)\<close>

text \<open>
  A shallow embedding of class \<open>TcpBbr\<close>. Every member function becomes a HOL function
  that takes the object (a record of its data members), the transport control block
  \<open>tcb\<close> and the other arguments, and returns what it has changed.

  Conventions of the embedding:
  \<^item> \<open>uint32_t\<close>, \<open>uint64_t\<close> are \<open>32 word\<close>, \<open>64 word\<close>: arithmetic wraps, comparisons
    are unsigned. The \<open>int32_t\<close> member \<open>m_delivered\<close> of a rate sample is a \<open>32 word\<close>
    read as two's complement (\<open><s\<close>).
  \<^item> A \<open>double\<close> is the \<open>real\<close> it denotes. Where the result of \<open>double\<close> arithmetic is
    converted to an integer or decides a branch (in-flight target, pacing rates, full-pipe
    test, epoch length, drain gain), every operation rounds its exact result to binary64
    (\<open>round_double\<close>: to nearest, ties to even; the magnitudes of this program stay far from
    overflow and from subnormal numbers). The smoothed quantities of \<open>PktsAcked\<close>
    (\<open>m_rttJitter\<close>, \<open>m_alpha\<close>, the nudged \<open>m_cWndGain\<close>) are kept exact. A conversion from
    \<open>double\<close> to an integer type truncates towards zero and is then reduced modulo the
    width of the target.
  \<^item> \<open>Time\<close> is the signed count of nanoseconds (the resolution the scripts of this
    repository set), an \<open>int\<close>; \<open>DataRate\<close> is its bit rate, a \<open>64 word\<close>.
  \<^item> \<open>Simulator::Now()\<close> is the argument \<open>now\<close>.
  \<^item> \<open>m_uv\<close> is a \<open>Ptr\<close> to a random variable object; objects of this kind live in a
    store indexed by address, and the state of one object is the sequence of values that its
    next calls of \<open>GetValue (0, 6)\<close> will return.
  \<^item> The windowed filter (windowed-filter.h) is not among the sources: its operations are
    a parameter \<open>W\<close> of every function that uses the filter.
\<close>

unbundle bit_operations_syntax

subsection \<open>Types of the surrounding library\<close>

type_synonym u32 = "32 word"
type_synonym u64 = "64 word"
type_synonym Time = int
type_synonym DataRate = "64 word"
type_synonym SequenceNumber32 = "32 word"
type_synonym uv_store = "nat \<Rightarrow> nat \<Rightarrow> real"

definition Time_Max :: Time where
  "Time_Max = 2 ^ 63 - 1"

definition IsZero :: "Time \<Rightarrow> bool" where
  "IsZero t \<longleftrightarrow> t = 0"

definition IsPositive :: "Time \<Rightarrow> bool" where
  "IsPositive t \<longleftrightarrow> 0 \<le> t"

definition Seconds :: "int \<Rightarrow> Time" where
  "Seconds n = n * 1000000000"

definition MilliSeconds :: "int \<Rightarrow> Time" where
  "MilliSeconds n = n * 1000000"

text \<open>
  Rounding to binary64. \<open>binexp x\<close> is the exponent \<open>e\<close> for which \<open>|x|\<close> lies between
  \<open>2 ^ e\<close> (included) and \<open>2 ^ (e + 1)\<close> (excluded), \<open>ulp x\<close> is the spacing \<open>2 ^ (e - 52)\<close>
  of the doubles of that binade, and \<open>rne\<close> rounds to the nearest integer, a tie to the
  even one.
\<close>

definition rne :: "real \<Rightarrow> int" where
  "rne r = (let n = \<lfloor>r\<rfloor>; f = r - of_int n
            in if f < 1 / 2 then n else if 1 / 2 < f then n + 1
               else if even n then n else n + 1)"

definition binexp :: "real \<Rightarrow> int" where
  "binexp x = (if 1 \<le> \<bar>x\<bar> then bitlen \<lfloor>\<bar>x\<bar>\<rfloor> - 1 else - bitlen (\<lceil>1 / \<bar>x\<bar>\<rceil> - 1))"

definition ulp :: "real \<Rightarrow> real" where
  "ulp x = (if 52 \<le> binexp x then 2 ^ nat (binexp x - 52) else 1 / 2 ^ nat (52 - binexp x))"

definition round_double :: "real \<Rightarrow> real" where
  "round_double x = (if x = 0 then 0 else of_int (rne (x / ulp x)) * ulp x)"

text \<open>The arithmetic of \<open>double\<close> and the conversions of unsigned integers to \<open>double\<close>.\<close>

definition dmul :: "real \<Rightarrow> real \<Rightarrow> real" where
  "dmul x y = round_double (x * y)"

definition ddiv :: "real \<Rightarrow> real \<Rightarrow> real" where
  "ddiv x y = round_double (x / y)"

definition dadd :: "real \<Rightarrow> real \<Rightarrow> real" where
  "dadd x y = round_double (x + y)"

definition dsub :: "real \<Rightarrow> real \<Rightarrow> real" where
  "dsub x y = round_double (x - y)"

definition u32_to_double :: "u32 \<Rightarrow> real" where
  "u32_to_double n = round_double (real (unat n))"

definition u64_to_double :: "u64 \<Rightarrow> real" where
  "u64_to_double n = round_double (real (unat n))"

text \<open>\<open>Time::GetSeconds\<close> returns the count of nanoseconds divided by \<open>10\<^sup>9\<close>, as a \<open>double\<close>.\<close>

definition GetSeconds :: "Time \<Rightarrow> real" where
  "GetSeconds t = round_double (real_of_int t / 1000000000)"

definition GetMilliSeconds :: "Time \<Rightarrow> int" where
  "GetMilliSeconds t = t sdiv 1000000"

definition GetNanoSeconds :: "Time \<Rightarrow> int" where
  "GetNanoSeconds t = t"

definition GetBitRate :: "DataRate \<Rightarrow> u64" where
  "GetBitRate r = r"

text \<open>Conversions from \<open>double\<close>: truncation towards zero, then the width of the target.\<close>

definition d2int :: "real \<Rightarrow> int" where
  "d2int x = (if 0 \<le> x then \<lfloor>x\<rfloor> else \<lceil>x\<rceil>)"

definition d2u32 :: "real \<Rightarrow> u32" where
  "d2u32 x = word_of_int (d2int x)"

definition d2u64 :: "real \<Rightarrow> u64" where
  "d2u64 x = word_of_int (d2int x)"

text \<open>
  Comparison of sequence numbers (\<open>SequenceNumber32::operator>=\<close>) is serial-number
  comparison: \<open>a\<close> is past \<open>b\<close> when it is ahead of it by at most half of the number space.
\<close>

definition seq_gt :: "SequenceNumber32 \<Rightarrow> SequenceNumber32 \<Rightarrow> bool" where
  "seq_gt a b \<longleftrightarrow> (b < a \<and> a - b \<le> 2147483647) \<or> (a < b \<and> 2147483647 < b - a)"

definition seq_ge :: "SequenceNumber32 \<Rightarrow> SequenceNumber32 \<Rightarrow> bool" where
  "seq_ge a b \<longleftrightarrow> seq_gt a b \<or> a = b"

datatype TcpCongState_t = CA_OPEN | CA_DISORDER | CA_CWR | CA_RECOVERY | CA_LOSS | CA_LAST_STATE

datatype TcpCAEvent_t =
    CA_EVENT_TX_START | CA_EVENT_CWND_RESTART | CA_EVENT_COMPLETE_CWR | CA_EVENT_LOSS
  | CA_EVENT_ECN_NO_CE | CA_EVENT_ECN_IS_CE | CA_EVENT_DELAYED_ACK | CA_EVENT_NON_DELAYED_ACK

datatype EcnState_t =
    ECN_DISABLED | ECN_IDLE | ECN_CE_RCVD | ECN_SENDING_ECE | ECN_ECE_RCVD | ECN_CWR_SENT

datatype UseEcn_t = Off | On | AcceptOnly

datatype EcnMode_t = ClassicEcn | DctcpEcn

datatype EcnCodePoint_t = NotECT | Ect1 | Ect0 | CongExp

datatype TcpFlag = ACK | ECE

text \<open>
  The members of \<open>TcpSocketState\<close> that tcp-bbr.cc reads or writes. \<open>rx_NextRxSequence\<close> is
  the next-receive sequence held by \<open>m_rxBuffer\<close>; \<open>sentEmptyPackets\<close> records each call of
  \<open>m_sendEmptyPacketCallback\<close>, with its flags and the receive sequence at that moment.
\<close>

record TcpSocketState =
  m_pacing :: bool
  tcb_minRtt :: Time
  m_cWnd :: u32
  m_pacingRate :: DataRate
  m_maxPacingRate :: DataRate
  m_initialCWnd :: u32
  m_segmentSize :: u32
  m_bytesInFlight :: u32
  m_ssThresh :: u32
  m_initialSsThresh :: u32
  m_lastRtt :: Time
  m_srtt :: Time
  m_congState :: TcpCongState_t
  m_lastAckedSackedBytes :: u32
  m_useEcn :: UseEcn_t
  m_ecnMode :: EcnMode_t
  m_ectCodePoint :: EcnCodePoint_t
  m_ecnState :: EcnState_t
  m_nextTxSequence :: SequenceNumber32
  m_lastAckedSeq :: SequenceNumber32
  rx_NextRxSequence :: SequenceNumber32
  sentEmptyPackets :: "(TcpFlag list \<times> SequenceNumber32) list"

text \<open>\<open>TcpRateOps::TcpRateSample\<close> and \<open>TcpRateOps::TcpRateConnection\<close>, as far as they are read.\<close>

record TcpRateSample =
  m_deliveryRate :: DataRate
  m_isAppLimited :: bool
  m_interval :: Time
  rs_delivered :: u32
  m_priorDelivered :: u32
  m_bytesLoss :: u32
  m_priorInFlight :: u32
  m_ackedSacked :: u32

record TcpRateConnection =
  rc_delivered :: u64

text \<open>The operations of \<open>WindowedFilter<DataRate, MaxFilter<DataRate>, uint32_t, uint32_t>\<close>.\<close>

record 'f WindowedFilter_ops =
  wf_default :: 'f
  wf_new :: "u32 \<Rightarrow> DataRate \<Rightarrow> u32 \<Rightarrow> 'f"
  GetBest :: "'f \<Rightarrow> DataRate"
  Update :: "'f \<Rightarrow> DataRate \<Rightarrow> u32 \<Rightarrow> 'f"

subsection \<open>The data members of \<open>TcpBbr\<close> (tcp-bbr.h)\<close>

datatype BbrMode_t = BBR_STARTUP | BBR_DRAIN | BBR_PROBE_BW | BBR_PROBE_RTT

record 'f TcpBbr =
  m_state :: BbrMode_t
  m_maxBwFilter :: 'f
  m_bandwidthWindowLength :: u32
  m_pacingGain :: real
  m_cWndGain :: real
  m_highGain :: real
  m_isPipeFilled :: bool
  m_minPipeCwnd :: u32
  m_roundCount :: u32
  m_roundStart :: bool
  m_nextRoundDelivered :: u32
  m_probeRttDuration :: Time
  m_probeRtPropStamp :: Time
  m_probeRttDoneStamp :: Time
  m_probeRttRoundDone :: bool
  m_packetConservation :: bool
  m_priorCwnd :: u32
  m_idleRestart :: bool
  m_targetCWnd :: u32
  m_fullBandwidth :: DataRate
  m_fullBandwidthCount :: u32
  m_minRtt :: Time
  m_sendQuantum :: u32
  m_cycleStamp :: Time
  m_cycleIndex :: u32
  m_minRttExpired :: bool
  m_minRttFilterLen :: Time
  m_minRttStamp :: Time
  m_isInitialized :: bool
  m_uv :: nat
  m_delivered :: u64
  m_appLimited :: u32
  m_extraAckedGain :: u32
  m_extraAcked :: "u32 list"
  m_extraAckedWinRtt :: u32
  m_extraAckedWinRttLength :: u32
  m_ackEpochAckedResetThresh :: u32
  m_extraAckedIdx :: u32
  m_ackEpochTime :: Time
  m_ackEpochAcked :: u32
  m_hasSeenRtt :: bool
  m_pacingMargin :: real
  m_rttJitter :: real
  m_ackedBytesEcn :: u32
  m_ackedBytesTotal :: u32
  m_priorRcvNxt :: SequenceNumber32
  m_priorRcvNxtFlag :: bool
  m_alpha :: real
  m_nextSeq :: SequenceNumber32
  m_nextSeqFlag :: bool
  m_ceState :: bool
  m_delayedAckReserved :: bool
  m_g :: real
  m_useEct0 :: bool
  m_initialized :: bool

definition GAIN_CYCLE_LENGTH :: u32 where
  "GAIN_CYCLE_LENGTH = 8"

definition PACING_GAIN_CYCLE :: "real list" where
  "PACING_GAIN_CYCLE = [5 / 4, 3 / 4, 1, 1, 1, 1, 1, 1]"


subsection \<open>Construction\<close>

text \<open>
  The default constructor followed by the attribute defaults registered in \<open>GetTypeId\<close>
  (HighGain 2.89, BwWindowLength 10, RttWindowLength 10 s, ProbeRttDuration 200 ms,
  ExtraAckedRttWindowLength 5, AckEpochAckedResetThresh \<open>1 << 12\<close>, DctcpShiftG 0.0625,
  DctcpAlphaOnInit 1.0, UseEct0 true); \<open>uv\<close> is the address of the random variable object
  the constructor creates.
\<close>

definition TcpBbr_new :: "'f WindowedFilter_ops \<Rightarrow> nat \<Rightarrow> 'f TcpBbr" where
  "TcpBbr_new W uv =
    \<lparr> m_state = BBR_STARTUP, m_maxBwFilter = wf_default W, m_bandwidthWindowLength = 10,
      m_pacingGain = 0, m_cWndGain = 0, m_highGain = round_double (289 / 100),
      m_isPipeFilled = False,
      m_minPipeCwnd = 0, m_roundCount = 0, m_roundStart = False, m_nextRoundDelivered = 0,
      m_probeRttDuration = MilliSeconds 200, m_probeRtPropStamp = 0, m_probeRttDoneStamp = 0,
      m_probeRttRoundDone = False, m_packetConservation = False, m_priorCwnd = 0,
      m_idleRestart = False, m_targetCWnd = 0, m_fullBandwidth = 0, m_fullBandwidthCount = 0,
      m_minRtt = Time_Max, m_sendQuantum = 0, m_cycleStamp = 0, m_cycleIndex = 0,
      m_minRttExpired = False, m_minRttFilterLen = Seconds 10, m_minRttStamp = 0,
      m_isInitialized = False, m_uv = uv, m_delivered = 0, m_appLimited = 0,
      m_extraAckedGain = 1, m_extraAcked = [0, 0], m_extraAckedWinRtt = 0,
      m_extraAckedWinRttLength = 5, m_ackEpochAckedResetThresh = 4096, m_extraAckedIdx = 0,
      m_ackEpochTime = 0, m_ackEpochAcked = 0, m_hasSeenRtt = False,
      m_pacingMargin = round_double (1 / 100), m_rttJitter = 0, m_ackedBytesEcn = 0,
      m_ackedBytesTotal = 0,
      m_priorRcvNxt = 0, m_priorRcvNxtFlag = False, m_alpha = 1, m_nextSeq = 0,
      m_nextSeqFlag = False, m_ceState = False, m_delayedAckReserved = False,
      m_g = 1 / 16, m_useEct0 = True, m_initialized = False \<rparr>"

text \<open>
  The copy constructor \<open>TcpBbr (const TcpBbr& sock)\<close>. Members absent from its initialiser
  list take their default member initialisers (\<open>m_state\<close>, \<open>m_extraAcked\<close>,
  \<open>m_pacingMargin\<close>, \<open>m_rttJitter\<close>) or are default-constructed (\<open>m_maxBwFilter\<close>); \<open>m_minRtt\<close> is initialised
  with \<open>Time::Max ()\<close>; \<open>m_uv\<close> is a copy of the pointer.
\<close>

definition TcpBbr_copy :: "'f WindowedFilter_ops \<Rightarrow> 'f TcpBbr \<Rightarrow> 'f TcpBbr" where
  "TcpBbr_copy W sock =
    \<lparr> m_state = BBR_STARTUP, m_maxBwFilter = wf_default W,
      m_bandwidthWindowLength = m_bandwidthWindowLength sock,
      m_pacingGain = m_pacingGain sock, m_cWndGain = m_cWndGain sock,
      m_highGain = m_highGain sock, m_isPipeFilled = m_isPipeFilled sock,
      m_minPipeCwnd = m_minPipeCwnd sock, m_roundCount = m_roundCount sock,
      m_roundStart = m_roundStart sock, m_nextRoundDelivered = m_nextRoundDelivered sock,
      m_probeRttDuration = m_probeRttDuration sock,
      m_probeRtPropStamp = m_probeRtPropStamp sock,
      m_probeRttDoneStamp = m_probeRttDoneStamp sock,
      m_probeRttRoundDone = m_probeRttRoundDone sock,
      m_packetConservation = m_packetConservation sock, m_priorCwnd = m_priorCwnd sock,
      m_idleRestart = m_idleRestart sock, m_targetCWnd = m_targetCWnd sock,
      m_fullBandwidth = m_fullBandwidth sock,
      m_fullBandwidthCount = m_fullBandwidthCount sock,
      m_minRtt = Time_Max, m_sendQuantum = m_sendQuantum sock,
      m_cycleStamp = m_cycleStamp sock, m_cycleIndex = m_cycleIndex sock,
      m_minRttExpired = m_minRttExpired sock, m_minRttFilterLen = m_minRttFilterLen sock,
      m_minRttStamp = m_minRttStamp sock, m_isInitialized = m_isInitialized sock,
      m_uv = m_uv sock, m_delivered = m_delivered sock, m_appLimited = m_appLimited sock,
      m_extraAckedGain = m_extraAckedGain sock, m_extraAcked = [0, 0],
      m_extraAckedWinRtt = m_extraAckedWinRtt sock,
      m_extraAckedWinRttLength = m_extraAckedWinRttLength sock,
      m_ackEpochAckedResetThresh = m_ackEpochAckedResetThresh sock,
      m_extraAckedIdx = m_extraAckedIdx sock, m_ackEpochTime = m_ackEpochTime sock,
      m_ackEpochAcked = m_ackEpochAcked sock, m_hasSeenRtt = m_hasSeenRtt sock,
      m_pacingMargin = round_double (1 / 100), m_rttJitter = 0,
      m_ackedBytesEcn = m_ackedBytesEcn sock, m_ackedBytesTotal = m_ackedBytesTotal sock,
      m_priorRcvNxt = m_priorRcvNxt sock, m_priorRcvNxtFlag = m_priorRcvNxtFlag sock,
      m_alpha = m_alpha sock, m_nextSeq = m_nextSeq sock, m_nextSeqFlag = m_nextSeqFlag sock,
      m_ceState = m_ceState sock, m_delayedAckReserved = m_delayedAckReserved sock,
      m_g = m_g sock, m_useEct0 = m_useEct0 sock, m_initialized = m_initialized sock \<rparr>"

text \<open>\<open>Fork\<close> is \<open>CopyObject<TcpBbr> (this)\<close>: a new object built by the copy constructor.\<close>

definition Fork :: "'f WindowedFilter_ops \<Rightarrow> 'f TcpBbr \<Rightarrow> 'f TcpBbr" where
  "Fork W this = TcpBbr_copy W this"

subsection \<open>Initialisation helpers and mode entry\<close>

definition SetBbrState :: "BbrMode_t \<Rightarrow> 'f TcpBbr \<Rightarrow> 'f TcpBbr" where
  "SetBbrState mode b = b\<lparr>m_state := mode\<rparr>"

definition InitRoundCounting :: "'f TcpBbr \<Rightarrow> 'f TcpBbr" where
  "InitRoundCounting b = b\<lparr>m_nextRoundDelivered := 0, m_roundStart := False, m_roundCount := 0\<rparr>"

definition InitFullPipe :: "'f TcpBbr \<Rightarrow> 'f TcpBbr" where
  "InitFullPipe b = b\<lparr>m_isPipeFilled := False, m_fullBandwidth := 0, m_fullBandwidthCount := 0\<rparr>"

definition InitPacingRate ::
  "'f WindowedFilter_ops \<Rightarrow> 'f TcpBbr \<Rightarrow> TcpSocketState \<Rightarrow> 'f TcpBbr \<times> TcpSocketState" where
  "InitPacingRate W b tcb =
    (let tcb1 = (if \<not> m_pacing tcb then tcb\<lparr>m_pacing := True\<rparr> else tcb);
         seen = (tcb_minRtt tcb1 \<noteq> Time_Max);
         rtt = (if seen then MilliSeconds (max (GetMilliSeconds (tcb_minRtt tcb1)) 1)
                else MilliSeconds 1);
         b1 = (if seen then b\<lparr>m_hasSeenRtt := True\<rparr> else b);
         nominalBandwidth = d2u64 (ddiv (u32_to_double (m_cWnd tcb1 * 8)) (GetSeconds rtt));
         tcb2 = tcb1\<lparr>m_pacingRate :=
                  d2u64 (dmul (m_pacingGain b1) (u64_to_double (GetBitRate nominalBandwidth)))\<rparr>
     in (b1\<lparr>m_maxBwFilter :=
              wf_new W (m_bandwidthWindowLength b1)
                (d2u64 (ddiv (u32_to_double (m_cWnd tcb2 * 8)) (GetSeconds rtt))) 0\<rparr>,
         tcb2))"

definition EnterStartup :: "'f TcpBbr \<Rightarrow> 'f TcpBbr" where
  "EnterStartup b =
    (let b1 = SetBbrState BBR_STARTUP b
     in b1\<lparr>m_pacingGain := m_highGain b1, m_cWndGain := m_highGain b1\<rparr>)"

definition EnterDrain :: "'f TcpBbr \<Rightarrow> 'f TcpBbr" where
  "EnterDrain b =
    (let b1 = SetBbrState BBR_DRAIN b
     in b1\<lparr>m_pacingGain := ddiv 1 (m_highGain b1), m_cWndGain := m_highGain b1\<rparr>)"

definition EnterProbeRTT :: "'f TcpBbr \<Rightarrow> 'f TcpBbr" where
  "EnterProbeRTT b =
    (let b1 = SetBbrState BBR_PROBE_RTT b
     in b1\<lparr>m_pacingGain := 1, m_cWndGain := 1\<rparr>)"

definition AdvanceCyclePhase :: "Time \<Rightarrow> 'f TcpBbr \<Rightarrow> 'f TcpBbr" where
  "AdvanceCyclePhase now b =
    (let b1 = b\<lparr>m_cycleStamp := now\<rparr>;
         b2 = b1\<lparr>m_cycleIndex := (m_cycleIndex b1 + 1) mod GAIN_CYCLE_LENGTH\<rparr>
     in b2\<lparr>m_pacingGain := PACING_GAIN_CYCLE ! unat (m_cycleIndex b2)\<rparr>)"

text \<open>
  \<open>EnterProbeBW\<close> draws one value from the random variable object at \<open>m_uv\<close>, which advances
  that object; \<open>(int)\<close> truncates the value, and the difference is computed in \<open>int\<close> before
  it is stored in the \<open>uint32_t\<close> index.
\<close>

definition EnterProbeBW :: "Time \<Rightarrow> 'f TcpBbr \<Rightarrow> uv_store \<Rightarrow> 'f TcpBbr \<times> uv_store" where
  "EnterProbeBW now b uvs =
    (let b1 = SetBbrState BBR_PROBE_BW b;
         b2 = b1\<lparr>m_pacingGain := 1, m_cWndGain := 2\<rparr>;
         v = uvs (m_uv b2) 0;
         uvs1 = uvs(m_uv b2 := (\<lambda>n. uvs (m_uv b2) (Suc n)));
         b3 = b2\<lparr>m_cycleIndex := word_of_int (uint GAIN_CYCLE_LENGTH - 1 - d2int v)\<rparr>
     in (AdvanceCyclePhase now b3, uvs1))"

definition ExitProbeRTT :: "Time \<Rightarrow> 'f TcpBbr \<Rightarrow> uv_store \<Rightarrow> 'f TcpBbr \<times> uv_store" where
  "ExitProbeRTT now b uvs =
    (if m_isPipeFilled b then EnterProbeBW now b uvs else (EnterStartup b, uvs))"

subsection \<open>Pacing rate and in-flight target\<close>

definition SetPacingRate ::
  "'f WindowedFilter_ops \<Rightarrow> 'f TcpBbr \<Rightarrow> TcpSocketState \<Rightarrow> real \<Rightarrow> 'f TcpBbr \<times> TcpSocketState" where
  "SetPacingRate W b tcb gain =
    (let rate0 = d2u64 (dmul gain (u64_to_double (GetBitRate (GetBest W (m_maxBwFilter b)))));
         rate1 = d2u64 (dmul (u64_to_double rate0) (dsub 1 (m_pacingMargin b)));
         rate = min rate1 (m_maxPacingRate tcb);
         (b1, tcb1) = (if \<not> m_hasSeenRtt b \<and> tcb_minRtt tcb \<noteq> Time_Max
                       then InitPacingRate W b tcb else (b, tcb))
     in (b1, if m_isPipeFilled b1 \<or> m_pacingRate tcb1 < rate
             then tcb1\<lparr>m_pacingRate := rate\<rparr> else tcb1))"

definition InFlight ::
  "'f WindowedFilter_ops \<Rightarrow> 'f TcpBbr \<Rightarrow> TcpSocketState \<Rightarrow> real \<Rightarrow> u32" where
  "InFlight W b tcb gain =
    (if m_minRtt b = Time_Max then m_initialCWnd tcb * m_segmentSize tcb
     else
       let quanta = u32_to_double (3 * m_sendQuantum b);
           estimatedBdp =
             ddiv (dmul (GetSeconds (m_minRtt b))
                        (u64_to_double (GetBitRate (GetBest W (m_maxBwFilter b))))) 8
       in if m_state b = BBR_PROBE_BW \<and> m_cycleIndex b = 0
          then d2u32 (dadd (dadd (dmul gain estimatedBdp) quanta)
                           (u32_to_double (2 * m_segmentSize tcb)))
          else d2u32 (dadd (dmul gain estimatedBdp) quanta))"

definition HandleRestartFromIdle ::
  "'f WindowedFilter_ops \<Rightarrow> 'f TcpBbr \<Rightarrow> TcpSocketState \<Rightarrow> TcpRateSample
    \<Rightarrow> 'f TcpBbr \<times> TcpSocketState" where
  "HandleRestartFromIdle W b tcb rs =
    (if m_bytesInFlight tcb = 0 \<and> m_isAppLimited rs
     then let b1 = b\<lparr>m_idleRestart := True\<rparr>
          in if m_state b1 = BBR_PROBE_BW then SetPacingRate W b1 tcb 1 else (b1, tcb)
     else (b, tcb))"

subsection \<open>The gain cycle of PROBE_BW\<close>

definition IsNextCyclePhase ::
  "'f WindowedFilter_ops \<Rightarrow> Time \<Rightarrow> 'f TcpBbr \<Rightarrow> TcpSocketState \<Rightarrow> TcpRateSample \<Rightarrow> bool" where
  "IsNextCyclePhase W now b tcb rs =
    (let isFullLength = (m_minRtt b < now - m_cycleStamp b)
     in if m_pacingGain b = 1 then isFullLength
        else if 1 < m_pacingGain b
        then isFullLength \<and>
             (0 < m_bytesLoss rs \<or> InFlight W b tcb (m_pacingGain b) \<le> m_priorInFlight rs)
        else isFullLength \<or> m_priorInFlight rs \<le> InFlight W b tcb 1)"

definition CheckCyclePhase ::
  "'f WindowedFilter_ops \<Rightarrow> Time \<Rightarrow> 'f TcpBbr \<Rightarrow> TcpSocketState \<Rightarrow> TcpRateSample \<Rightarrow> 'f TcpBbr" where
  "CheckCyclePhase W now b tcb rs =
    (if m_state b = BBR_PROBE_BW \<and> IsNextCyclePhase W now b tcb rs
     then AdvanceCyclePhase now b else b)"

subsection \<open>Full pipe and drain\<close>

definition CheckFullPipe :: "'f WindowedFilter_ops \<Rightarrow> 'f TcpBbr \<Rightarrow> TcpRateSample \<Rightarrow> 'f TcpBbr" where
  "CheckFullPipe W b rs =
    (if m_isPipeFilled b \<or> \<not> m_roundStart b \<or> m_isAppLimited rs then b
     else if dmul (u64_to_double (GetBitRate (m_fullBandwidth b))) (5 / 4)
               \<le> u64_to_double (GetBitRate (GetBest W (m_maxBwFilter b)))
     then b\<lparr>m_fullBandwidth := GetBest W (m_maxBwFilter b), m_fullBandwidthCount := 0\<rparr>
     else
       let b1 = b\<lparr>m_fullBandwidthCount := m_fullBandwidthCount b + 1\<rparr>
       in if 3 \<le> m_fullBandwidthCount b1 then b1\<lparr>m_isPipeFilled := True\<rparr> else b1)"

definition CheckDrain ::
  "'f WindowedFilter_ops \<Rightarrow> Time \<Rightarrow> 'f TcpBbr \<Rightarrow> TcpSocketState \<Rightarrow> uv_store
    \<Rightarrow> 'f TcpBbr \<times> TcpSocketState \<times> uv_store" where
  "CheckDrain W now b tcb uvs =
    (let (b1, tcb1) =
           (if m_state b = BBR_STARTUP \<and> m_isPipeFilled b
            then let b' = EnterDrain b in (b', tcb\<lparr>m_ssThresh := InFlight W b' tcb 1\<rparr>)
            else (b, tcb))
     in if m_state b1 = BBR_DRAIN \<and> m_bytesInFlight tcb1 \<le> InFlight W b1 tcb1 1
        then let (b2, uvs1) = EnterProbeBW now b1 uvs in (b2, tcb1, uvs1)
        else (b1, tcb1, uvs))"

subsection \<open>Round-trip propagation time and PROBE_RTT\<close>

definition UpdateRTprop :: "Time \<Rightarrow> 'f TcpBbr \<Rightarrow> TcpSocketState \<Rightarrow> 'f TcpBbr" where
  "UpdateRTprop now b tcb =
    (let b1 = b\<lparr>m_minRttExpired := (m_minRttStamp b + m_minRttFilterLen b < now)\<rparr>
     in if IsPositive (m_lastRtt tcb) \<and> (m_lastRtt tcb \<le> m_minRtt b1 \<or> m_minRttExpired b1)
        then b1\<lparr>m_minRtt := m_lastRtt tcb, m_minRttStamp := now\<rparr>
        else b1)"

definition SaveCwnd :: "'f TcpBbr \<Rightarrow> TcpSocketState \<Rightarrow> 'f TcpBbr" where
  "SaveCwnd b tcb =
    (if m_congState tcb \<noteq> CA_RECOVERY \<and> m_state b \<noteq> BBR_PROBE_RTT
     then b\<lparr>m_priorCwnd := m_cWnd tcb\<rparr>
     else b\<lparr>m_priorCwnd := max (m_priorCwnd b) (m_cWnd tcb)\<rparr>)"

definition RestoreCwnd :: "'f TcpBbr \<Rightarrow> TcpSocketState \<Rightarrow> TcpSocketState" where
  "RestoreCwnd b tcb = tcb\<lparr>m_cWnd := max (m_priorCwnd b) (m_cWnd tcb)\<rparr>"

definition HandleProbeRTT ::
  "Time \<Rightarrow> 'f TcpBbr \<Rightarrow> TcpSocketState \<Rightarrow> uv_store \<Rightarrow> 'f TcpBbr \<times> TcpSocketState \<times> uv_store" where
  "HandleProbeRTT now b tcb uvs =
    (let totalBytes = (ucast (m_delivered b + ucast (m_bytesInFlight tcb)) :: u32);
         b1 = b\<lparr>m_appLimited := (if 0 < totalBytes then totalBytes else 1)\<rparr>
     in if IsZero (m_probeRttDoneStamp b1) \<and> m_bytesInFlight tcb \<le> m_minPipeCwnd b1
        then (b1\<lparr>m_probeRttDoneStamp := now + m_probeRttDuration b1,
                  m_probeRttRoundDone := False,
                  m_nextRoundDelivered := ucast (m_delivered b1)\<rparr>, tcb, uvs)
        else if \<not> IsZero (m_probeRttDoneStamp b1)
        then let b2 = (if m_roundStart b1 then b1\<lparr>m_probeRttRoundDone := True\<rparr> else b1)
             in if m_probeRttRoundDone b2 \<and> m_probeRttDoneStamp b2 < now
                then let b3 = b2\<lparr>m_minRttStamp := now\<rparr>;
                         tcb1 = RestoreCwnd b3 tcb;
                         (b4, uvs1) = ExitProbeRTT now b3 uvs
                     in (b4, tcb1, uvs1)
                else (b2, tcb, uvs)
        else (b1, tcb, uvs))"

definition CheckProbeRTT ::
  "Time \<Rightarrow> 'f TcpBbr \<Rightarrow> TcpSocketState \<Rightarrow> TcpRateSample \<Rightarrow> uv_store
    \<Rightarrow> 'f TcpBbr \<times> TcpSocketState \<times> uv_store" where
  "CheckProbeRTT now b tcb rs uvs =
    (let b1 = (if m_state b \<noteq> BBR_PROBE_RTT \<and> m_minRttExpired b \<and> \<not> m_idleRestart b
               then (SaveCwnd (EnterProbeRTT b) tcb)\<lparr>m_probeRttDoneStamp := Seconds 0\<rparr>
               else b);
         (b2, tcb2, uvs2) = (if m_state b1 = BBR_PROBE_RTT then HandleProbeRTT now b1 tcb uvs
                             else (b1, tcb, uvs))
     in (if rs_delivered rs \<noteq> 0 then b2\<lparr>m_idleRestart := False\<rparr> else b2, tcb2, uvs2))"


subsection \<open>Ack aggregation\<close>

definition SetSendQuantum :: "'f TcpBbr \<Rightarrow> TcpSocketState \<Rightarrow> 'f TcpBbr" where
  "SetSendQuantum b tcb = b\<lparr>m_sendQuantum := 1 * m_segmentSize tcb\<rparr>"

definition AckAggregationCwnd :: "'f WindowedFilter_ops \<Rightarrow> 'f TcpBbr \<Rightarrow> u32" where
  "AckAggregationCwnd W b =
    (if m_extraAckedGain b \<noteq> 0 \<and> m_isPipeFilled b
     then let maxAggrBytes = (ucast (GetBitRate (GetBest W (m_maxBwFilter b)) div (10 * 8)) :: u32);
              aggrCwndBytes = m_extraAckedGain b * max (m_extraAcked b ! 0) (m_extraAcked b ! 1)
          in min aggrCwndBytes maxAggrBytes
     else 0)"

definition UpdateTargetCwnd ::
  "'f WindowedFilter_ops \<Rightarrow> 'f TcpBbr \<Rightarrow> TcpSocketState \<Rightarrow> 'f TcpBbr" where
  "UpdateTargetCwnd W b tcb =
    b\<lparr>m_targetCWnd := InFlight W b tcb (m_cWndGain b) + AckAggregationCwnd W b\<rparr>"

text \<open>
  \<open>m_extraAckedIdx\<close> only ever holds 0 or 1 (it starts at 0 and is assigned \<open>idx ? 0 : 1\<close>),
  so the reads and writes of the two-element array \<open>m_extraAcked\<close> are in range.
\<close>

definition UpdateAckAggregation ::
  "'f WindowedFilter_ops \<Rightarrow> Time \<Rightarrow> 'f TcpBbr \<Rightarrow> TcpSocketState \<Rightarrow> TcpRateSample \<Rightarrow> 'f TcpBbr" where
  "UpdateAckAggregation W now b tcb rs =
    (if m_extraAckedGain b = 0 \<or> m_ackedSacked rs \<le> 0 \<or> rs_delivered rs <s 0 then b
     else
       let b1 = (if m_roundStart b
                 then let b' = b\<lparr>m_extraAckedWinRtt := min 31 (m_extraAckedWinRtt b + 1)\<rparr>
                      in if m_extraAckedWinRttLength b' \<le> m_extraAckedWinRtt b'
                         then let b'' = b'\<lparr>m_extraAckedWinRtt := 0,
                                          m_extraAckedIdx :=
                                            (if m_extraAckedIdx b' \<noteq> 0 then 0 else 1)\<rparr>
                              in b''\<lparr>m_extraAcked :=
                                      (m_extraAcked b'')[unat (m_extraAckedIdx b'') := 0]\<rparr>
                         else b'
                 else b);
           epochProp = d2u32 (dsub (GetSeconds now) (GetSeconds (m_ackEpochTime b1)));
           expectedAcked =
             (ucast (GetBitRate (GetBest W (m_maxBwFilter b1)) * ucast epochProp div 8) :: u32);
           reset = (m_ackEpochAcked b1 \<le> expectedAcked \<or>
                    m_ackEpochAckedResetThresh b1 \<le> m_ackEpochAcked b1 + m_ackedSacked rs);
           b2 = (if reset then b1\<lparr>m_ackEpochAcked := 0, m_ackEpochTime := now\<rparr> else b1);
           expectedAcked1 = (if reset then 0 else expectedAcked);
           b3 = b2\<lparr>m_ackEpochAcked := m_ackEpochAcked b2 + m_ackedSacked rs\<rparr>;
           extraAck = min (m_ackEpochAcked b3 - expectedAcked1) (m_cWnd tcb)
       in if m_extraAcked b3 ! unat (m_extraAckedIdx b3) < extraAck
          then b3\<lparr>m_extraAcked := (m_extraAcked b3)[unat (m_extraAckedIdx b3) := extraAck]\<rparr>
          else b3)"

subsection \<open>Congestion window\<close>

text \<open>
  In \<open>ModulateCwndForRecovery\<close> the loss cut is computed on values cast to \<open>int\<close>: the
  subtraction is that of 32-bit two's complement (it wraps), the maximum compares signed
  values, and the result is stored back into the unsigned window.
\<close>

definition ModulateCwndForRecovery ::
  "'f TcpBbr \<Rightarrow> TcpSocketState \<Rightarrow> TcpRateSample \<Rightarrow> TcpSocketState \<times> bool" where
  "ModulateCwndForRecovery b tcb rs =
    (let tcb1 = (if 0 < m_bytesLoss rs
                 then tcb\<lparr>m_cWnd := (if m_cWnd tcb - m_bytesLoss rs <s m_segmentSize tcb
                                      then m_segmentSize tcb
                                      else m_cWnd tcb - m_bytesLoss rs)\<rparr>
                 else tcb)
     in if m_packetConservation b
        then (tcb1\<lparr>m_cWnd := max (m_cWnd tcb1) (m_bytesInFlight tcb1 + m_ackedSacked rs)\<rparr>, True)
        else (tcb1, False))"

definition ModulateCwndForProbeRTT :: "'f TcpBbr \<Rightarrow> TcpSocketState \<Rightarrow> TcpSocketState" where
  "ModulateCwndForProbeRTT b tcb =
    (if m_state b = BBR_PROBE_RTT then tcb\<lparr>m_cWnd := min (m_cWnd tcb) (m_minPipeCwnd b)\<rparr>
     else tcb)"

text \<open>
  \<open>SetCwnd\<close>: both \<open>goto done\<close> jump over the update of the target, the growth of the window
  and the floor at \<open>m_minPipeCwnd\<close>, straight to \<open>ModulateCwndForProbeRTT\<close>.
\<close>

definition SetCwnd ::
  "'f WindowedFilter_ops \<Rightarrow> 'f TcpBbr \<Rightarrow> TcpSocketState \<Rightarrow> TcpRateSample
    \<Rightarrow> 'f TcpBbr \<times> TcpSocketState" where
  "SetCwnd W b tcb rs =
    (if m_ackedSacked rs = 0 then (b, ModulateCwndForProbeRTT b tcb)
     else
       let (tcb1, done) = (if m_congState tcb = CA_RECOVERY
                           then ModulateCwndForRecovery b tcb rs else (tcb, False))
       in if done then (b, ModulateCwndForProbeRTT b tcb1)
          else
            let b1 = UpdateTargetCwnd W b tcb1;
                tcb2 = (if m_isPipeFilled b1
                        then tcb1\<lparr>m_cWnd := min (m_cWnd tcb1 + m_ackedSacked rs) (m_targetCWnd b1)\<rparr>
                        else if m_cWnd tcb1 < m_targetCWnd b1 \<or>
                                m_delivered b1 < ucast (m_initialCWnd tcb1 * m_segmentSize tcb1)
                        then tcb1\<lparr>m_cWnd := m_cWnd tcb1 + m_ackedSacked rs\<rparr>
                        else tcb1);
                tcb3 = tcb2\<lparr>m_cWnd := max (m_cWnd tcb2) (m_minPipeCwnd b1)\<rparr>
            in (b1, ModulateCwndForProbeRTT b1 tcb3))"

subsection \<open>Rounds and bottleneck bandwidth\<close>

definition UpdateRound :: "'f TcpBbr \<Rightarrow> TcpSocketState \<Rightarrow> TcpRateSample \<Rightarrow> 'f TcpBbr" where
  "UpdateRound b tcb rs =
    (if m_nextRoundDelivered b \<le> m_priorDelivered rs
     then b\<lparr>m_nextRoundDelivered := ucast (m_delivered b),
            m_roundCount := m_roundCount b + 1,
            m_roundStart := True,
            m_packetConservation := False\<rparr>
     else b\<lparr>m_roundStart := False\<rparr>)"

definition UpdateBottleneckBandwidth ::
  "'f WindowedFilter_ops \<Rightarrow> 'f TcpBbr \<Rightarrow> TcpSocketState \<Rightarrow> TcpRateSample \<Rightarrow> 'f TcpBbr" where
  "UpdateBottleneckBandwidth W b tcb rs =
    (if rs_delivered rs <s 0 \<or> IsZero (m_interval rs) then b
     else
       let b1 = UpdateRound b tcb rs
       in if GetBest W (m_maxBwFilter b1) \<le> m_deliveryRate rs \<or> \<not> m_isAppLimited rs
          then b1\<lparr>m_maxBwFilter :=
                   Update W (m_maxBwFilter b1) (m_deliveryRate rs) (m_roundCount b1)\<rparr>
          else b1)"

subsection \<open>The per-acknowledgment entry point\<close>

definition UpdateModelAndState ::
  "'f WindowedFilter_ops \<Rightarrow> Time \<Rightarrow> 'f TcpBbr \<Rightarrow> TcpSocketState \<Rightarrow> TcpRateSample \<Rightarrow> uv_store
    \<Rightarrow> 'f TcpBbr \<times> TcpSocketState \<times> uv_store" where
  "UpdateModelAndState W now b tcb rs uvs =
    (let b1 = UpdateBottleneckBandwidth W b tcb rs;
         b2 = UpdateAckAggregation W now b1 tcb rs;
         b3 = CheckCyclePhase W now b2 tcb rs;
         b4 = CheckFullPipe W b3 rs;
         (b5, tcb5, uvs5) = CheckDrain W now b4 tcb uvs;
         b6 = UpdateRTprop now b5 tcb5
     in CheckProbeRTT now b6 tcb5 rs uvs5)"

definition UpdateControlParameters ::
  "'f WindowedFilter_ops \<Rightarrow> 'f TcpBbr \<Rightarrow> TcpSocketState \<Rightarrow> TcpRateSample
    \<Rightarrow> 'f TcpBbr \<times> TcpSocketState" where
  "UpdateControlParameters W b tcb rs =
    (let (b1, tcb1) = SetPacingRate W b tcb (m_pacingGain b);
         b2 = SetSendQuantum b1 tcb1
     in SetCwnd W b2 tcb1 rs)"

definition CongControl ::
  "'f WindowedFilter_ops \<Rightarrow> Time \<Rightarrow> 'f TcpBbr \<Rightarrow> TcpSocketState \<Rightarrow> TcpRateConnection
    \<Rightarrow> TcpRateSample \<Rightarrow> uv_store \<Rightarrow> 'f TcpBbr \<times> TcpSocketState \<times> uv_store" where
  "CongControl W now b tcb rc rs uvs =
    (let b0 = b\<lparr>m_delivered := rc_delivered rc\<rparr>;
         (b1, tcb1, uvs1) = UpdateModelAndState W now b0 tcb rs uvs;
         (b2, tcb2) = UpdateControlParameters W b1 tcb1 rs
     in (b2, tcb2, uvs1))"

subsection \<open>Initialisation, state changes and window events\<close>

text \<open>
  \<open>Init\<close> also calls \<open>SetSuppressIncreaseIfCwndLimited (false)\<close> of the base class
  \<open>TcpLinuxReno\<close>, whose members are outside this model.
\<close>

definition Init :: "'f TcpBbr \<Rightarrow> TcpSocketState \<Rightarrow> 'f TcpBbr \<times> TcpSocketState" where
  "Init b tcb =
    (b\<lparr>m_initialized := True\<rparr>,
     tcb\<lparr>m_useEcn := On, m_ecnMode := DctcpEcn,
         m_ectCodePoint := (if m_useEct0 b then Ect0 else Ect1)\<rparr>)"

definition CongestionStateSet ::
  "'f WindowedFilter_ops \<Rightarrow> Time \<Rightarrow> 'f TcpBbr \<Rightarrow> TcpSocketState \<Rightarrow> TcpCongState_t
    \<Rightarrow> 'f TcpBbr \<times> TcpSocketState" where
  "CongestionStateSet W now b tcb newState =
    (if newState = CA_OPEN \<and> \<not> m_isInitialized b
     then
       let b1 = b\<lparr>m_minRtt := (if m_srtt tcb \<noteq> Time_Max then m_srtt tcb else Time_Max),
                  m_minRttStamp := now, m_priorCwnd := m_cWnd tcb\<rparr>;
           tcb1 = tcb\<lparr>m_ssThresh := m_initialSsThresh tcb\<rparr>;
           b2 = b1\<lparr>m_targetCWnd := m_cWnd tcb1, m_minPipeCwnd := 4 * m_segmentSize tcb1,
                   m_sendQuantum := 1 * m_segmentSize tcb1\<rparr>;
           b3 = EnterStartup (InitFullPipe (InitRoundCounting b2));
           (b4, tcb2) = InitPacingRate W b3 tcb1
       in (b4\<lparr>m_ackEpochTime := now, m_extraAckedWinRtt := 0, m_extraAckedIdx := 0,
               m_ackEpochAcked := 0, m_extraAcked := [0, 0], m_isInitialized := True\<rparr>, tcb2)
     else if newState = CA_LOSS
     then ((SaveCwnd b tcb)\<lparr>m_roundStart := True\<rparr>, tcb)
     else if newState = CA_RECOVERY
     then
       let b1 = SaveCwnd b tcb;
           tcb1 = tcb\<lparr>m_cWnd := m_bytesInFlight tcb
                                   + max (m_lastAckedSackedBytes tcb) (m_segmentSize tcb)\<rparr>
       in (b1\<lparr>m_packetConservation := True\<rparr>, tcb1)
     else (b, tcb))"

subsection \<open>The ECN estimator\<close>

definition CeState0to1 :: "'f TcpBbr \<Rightarrow> TcpSocketState \<Rightarrow> 'f TcpBbr \<times> TcpSocketState" where
  "CeState0to1 b tcb =
    (let tcb1 = (if \<not> m_ceState b \<and> m_delayedAckReserved b \<and> m_priorRcvNxtFlag b
                 then tcb\<lparr>sentEmptyPackets := sentEmptyPackets tcb @ [([ACK], m_priorRcvNxt b)]\<rparr>
                 else tcb);
         b1 = (if \<not> m_priorRcvNxtFlag b then b\<lparr>m_priorRcvNxtFlag := True\<rparr> else b)
     in (b1\<lparr>m_priorRcvNxt := rx_NextRxSequence tcb1, m_ceState := True\<rparr>,
         tcb1\<lparr>m_ecnState := ECN_CE_RCVD\<rparr>))"

definition CeState1to0 :: "'f TcpBbr \<Rightarrow> TcpSocketState \<Rightarrow> 'f TcpBbr \<times> TcpSocketState" where
  "CeState1to0 b tcb =
    (let tcb1 = (if m_ceState b \<and> m_delayedAckReserved b \<and> m_priorRcvNxtFlag b
                 then tcb\<lparr>sentEmptyPackets :=
                            sentEmptyPackets tcb @ [([ACK, ECE], m_priorRcvNxt b)]\<rparr>
                 else tcb);
         b1 = (if \<not> m_priorRcvNxtFlag b then b\<lparr>m_priorRcvNxtFlag := True\<rparr> else b)
     in (b1\<lparr>m_priorRcvNxt := rx_NextRxSequence tcb1, m_ceState := False\<rparr>,
         if m_ecnState tcb1 = ECN_CE_RCVD \<or> m_ecnState tcb1 = ECN_SENDING_ECE
         then tcb1\<lparr>m_ecnState := ECN_IDLE\<rparr> else tcb1))"

definition UpdateAckReserved :: "'f TcpBbr \<Rightarrow> TcpSocketState \<Rightarrow> TcpCAEvent_t \<Rightarrow> 'f TcpBbr" where
  "UpdateAckReserved b tcb event =
    (case event of
       CA_EVENT_DELAYED_ACK \<Rightarrow>
         (if \<not> m_delayedAckReserved b then b\<lparr>m_delayedAckReserved := True\<rparr> else b)
     | CA_EVENT_NON_DELAYED_ACK \<Rightarrow>
         (if m_delayedAckReserved b then b\<lparr>m_delayedAckReserved := False\<rparr> else b)
     | _ \<Rightarrow> b)"

definition CwndEvent ::
  "'f WindowedFilter_ops \<Rightarrow> Time \<Rightarrow> 'f TcpBbr \<Rightarrow> TcpSocketState \<Rightarrow> TcpCAEvent_t \<Rightarrow> uv_store
    \<Rightarrow> 'f TcpBbr \<times> TcpSocketState \<times> uv_store" where
  "CwndEvent W now b tcb event uvs =
    (case event of
       CA_EVENT_COMPLETE_CWR \<Rightarrow>
         let b1 = b\<lparr>m_packetConservation := False\<rparr> in (b1, RestoreCwnd b1 tcb, uvs)
     | CA_EVENT_TX_START \<Rightarrow>
         if m_appLimited b = 0 then (b, tcb, uvs)
         else
           let b1 = b\<lparr>m_idleRestart := True, m_ackEpochTime := now, m_ackEpochAcked := 0\<rparr>
           in if m_state b1 = BBR_PROBE_BW
              then let (b2, tcb2) = SetPacingRate W b1 tcb 1 in (b2, tcb2, uvs)
              else if m_state b1 = BBR_PROBE_RTT
              then if m_probeRttRoundDone b1 \<and> m_probeRttDoneStamp b1 < now
                   then let b2 = b1\<lparr>m_minRttStamp := now\<rparr>;
                            tcb2 = RestoreCwnd b2 tcb;
                            (b3, uvs3) = ExitProbeRTT now b2 uvs
                        in (b3, tcb2, uvs3)
                   else (b1, tcb, uvs)
              else (b1, tcb, uvs)
     | CA_EVENT_ECN_IS_CE \<Rightarrow> let (b1, tcb1) = CeState0to1 b tcb in (b1, tcb1, uvs)
     | CA_EVENT_ECN_NO_CE \<Rightarrow> let (b1, tcb1) = CeState1to0 b tcb in (b1, tcb1, uvs)
     | CA_EVENT_DELAYED_ACK \<Rightarrow> (UpdateAckReserved b tcb event, tcb, uvs)
     | CA_EVENT_NON_DELAYED_ACK \<Rightarrow> (UpdateAckReserved b tcb event, tcb, uvs)
     | _ \<Rightarrow> (b, tcb, uvs))"

definition GetSsThresh :: "'f TcpBbr \<Rightarrow> TcpSocketState \<Rightarrow> u32 \<Rightarrow> 'f TcpBbr \<times> u32" where
  "GetSsThresh b tcb bytesInFlight = (SaveCwnd b tcb, m_ssThresh tcb)"

definition Reset :: "'f TcpBbr \<Rightarrow> TcpSocketState \<Rightarrow> 'f TcpBbr" where
  "Reset b tcb =
    b\<lparr>m_nextSeq := m_nextTxSequence tcb, m_ackedBytesEcn := 0, m_ackedBytesTotal := 0\<rparr>"

text \<open>
  \<open>PktsAcked\<close> returns the object and, when the observation window closes, the arguments
  with which the trace source \<open>m_traceCongestionEstimate\<close> is fired.
\<close>

definition PktsAcked ::
  "'f TcpBbr \<Rightarrow> TcpSocketState \<Rightarrow> u32 \<Rightarrow> Time \<Rightarrow> 'f TcpBbr \<times> (u32 \<times> u32 \<times> real) option" where
  "PktsAcked b tcb segmentsAcked rtt =
    (let b1 = b\<lparr>m_rttJitter := (1 - m_g b) * m_rttJitter b +
                   m_g b * real_of_int \<bar>GetNanoSeconds rtt - GetNanoSeconds (m_minRtt b)\<bar>\<rparr>;
         b2 = b1\<lparr>m_ackedBytesTotal := m_ackedBytesTotal b1 + segmentsAcked * m_segmentSize tcb\<rparr>;
         b3 = (if m_ecnState tcb = ECN_ECE_RCVD
               then
                 let c1 = b2\<lparr>m_ackedBytesEcn :=
                             m_ackedBytesEcn b2 + segmentsAcked * m_segmentSize tcb\<rparr>;
                     c2 = (if m_ectCodePoint tcb = Ect0
                           then c1\<lparr>m_cWndGain := min (5 / 2) (m_cWndGain c1 + 1 / 10)\<rparr> else c1)
                 in if m_ectCodePoint tcb = Ect1
                    then c2\<lparr>m_cWndGain := max (3 / 2) (m_cWndGain c2 - 1 / 10)\<rparr> else c2
               else b2);
         b4 = (if \<not> m_nextSeqFlag b3
               then b3\<lparr>m_nextSeq := m_nextTxSequence tcb, m_nextSeqFlag := True\<rparr> else b3)
     in if seq_ge (m_lastAckedSeq tcb) (m_nextSeq b4)
        then
          let bytesEcn = (if 0 < m_ackedBytesTotal b4
                          then real (unat (m_ackedBytesEcn b4)) * 1 / real (unat (m_ackedBytesTotal b4))
                          else 0);
              b5 = b4\<lparr>m_alpha := (1 - m_g b4) * m_alpha b4 + m_g b4 * bytesEcn\<rparr>
          in (Reset b5 tcb, Some (m_ackedBytesEcn b5, m_ackedBytesTotal b5, m_alpha b5))
        else (b4, None))"

text \<open>\<open>NS_ABORT_MSG_IF\<close> terminates the program; the model returns the error.\<close>

datatype error = Abort string

definition InitializeDctcpAlpha :: "'f TcpBbr \<Rightarrow> real \<Rightarrow> error + 'f TcpBbr" where
  "InitializeDctcpAlpha b alpha =
    (if m_initialized b then Inl (Abort ''DCTCP has already been initialized'')
     else Inr (b\<lparr>m_alpha := alpha\<rparr>))"


subsection \<open>Calls made by the socket\<close>

text \<open>
  The socket drives the object through its public member functions. Each call carries the
  control block as the socket presents it at that moment (the socket owns the control block
  and changes it between calls); the object and the store of random variable objects are
  carried from one call to the next.
\<close>

datatype event =
    CongControl_ev Time TcpSocketState TcpRateConnection TcpRateSample
  | CongestionStateSet_ev Time TcpSocketState TcpCongState_t
  | CwndEvent_ev Time TcpSocketState TcpCAEvent_t
  | PktsAcked_ev TcpSocketState u32 Time
  | GetSsThresh_ev TcpSocketState u32
  | Init_ev TcpSocketState

fun call :: "'f WindowedFilter_ops \<Rightarrow> event \<Rightarrow> 'f TcpBbr \<times> uv_store \<Rightarrow> 'f TcpBbr \<times> uv_store" where
  "call W (CongControl_ev now tcb rc rs) (b, uvs) =
     (fst (CongControl W now b tcb rc rs uvs), snd (snd (CongControl W now b tcb rc rs uvs)))"
| "call W (CongestionStateSet_ev now tcb newState) (b, uvs) =
     (fst (CongestionStateSet W now b tcb newState), uvs)"
| "call W (CwndEvent_ev now tcb event) (b, uvs) =
     (fst (CwndEvent W now b tcb event uvs), snd (snd (CwndEvent W now b tcb event uvs)))"
| "call W (PktsAcked_ev tcb segmentsAcked rtt) (b, uvs) =
     (fst (PktsAcked b tcb segmentsAcked rtt), uvs)"
| "call W (GetSsThresh_ev tcb bytesInFlight) (b, uvs) =
     (fst (GetSsThresh b tcb bytesInFlight), uvs)"
| "call W (Init_ev tcb) (b, uvs) = (fst (Init b tcb), uvs)"

text \<open>The object on which \<open>CongControl\<close>, through \<open>UpdateModelAndState\<close>, calls \<open>CheckFullPipe\<close>.\<close>

definition at_CheckFullPipe ::
  "'f WindowedFilter_ops \<Rightarrow> Time \<Rightarrow> 'f TcpBbr \<Rightarrow> TcpSocketState \<Rightarrow> TcpRateConnection
    \<Rightarrow> TcpRateSample \<Rightarrow> 'f TcpBbr" where
  "at_CheckFullPipe W now b tcb rc rs =
    CheckCyclePhase W now
      (UpdateAckAggregation W now
        (UpdateBottleneckBandwidth W (b\<lparr>m_delivered := rc_delivered rc\<rparr>) tcb rs) tcb rs) tcb rs"

text \<open>
  Whether a call takes the STARTUP-to-DRAIN branch of \<open>CheckDrain\<close> (the only caller of
  \<open>EnterDrain\<close>, reached only from \<open>CongControl\<close>, right after \<open>CheckFullPipe\<close>), and how
  many calls of a sequence do.
\<close>

fun enters_drain :: "'f WindowedFilter_ops \<Rightarrow> event \<Rightarrow> 'f TcpBbr \<times> uv_store \<Rightarrow> bool" where
  "enters_drain W (CongControl_ev now tcb rc rs) (b, uvs) =
     (m_state (CheckFullPipe W (at_CheckFullPipe W now b tcb rc rs) rs) = BBR_STARTUP \<and>
      m_isPipeFilled (CheckFullPipe W (at_CheckFullPipe W now b tcb rc rs) rs))"
| "enters_drain W _ (b, uvs) = False"

fun drain_entries :: "'f WindowedFilter_ops \<Rightarrow> event list \<Rightarrow> 'f TcpBbr \<times> uv_store \<Rightarrow> nat" where
  "drain_entries W [] s = 0"
| "drain_entries W (e # es) s =
     (if enters_drain W e s then 1 else 0) + drain_entries W es (call W e s)"

subsection \<open>Concrete inputs\<close>

text \<open>
  A filter whose window never expires (its state is the largest sample seen), a control
  block of a connection with 1448-byte segments and a 10 ms round trip, a rate sample of
  100 Mbit/s over 10 ms, and a store whose only random variable object always returns 3.5.
\<close>

definition maxW :: "DataRate WindowedFilter_ops" where
  "maxW = \<lparr> wf_default = 0, wf_new = (\<lambda>len zero t. zero), GetBest = (\<lambda>f. f),
            Update = (\<lambda>f s t. max f s) \<rparr>"

definition tcb_ex :: TcpSocketState where
  "tcb_ex =
    \<lparr> m_pacing = True, tcb_minRtt = 10000000, m_cWnd = 14480, m_pacingRate = 0,
      m_maxPacingRate = 4000000000, m_initialCWnd = 10, m_segmentSize = 1448,
      m_bytesInFlight = 0, m_ssThresh = 4294967295, m_initialSsThresh = 4294967295,
      m_lastRtt = 10000000, m_srtt = 10000000, m_congState = CA_OPEN,
      m_lastAckedSackedBytes = 0, m_useEcn = On, m_ecnMode = DctcpEcn,
      m_ectCodePoint = Ect0, m_ecnState = ECN_IDLE, m_nextTxSequence = 1,
      m_lastAckedSeq = 1, rx_NextRxSequence = 1, sentEmptyPackets = [] \<rparr>"

definition rs_ex :: TcpRateSample where
  "rs_ex =
    \<lparr> m_deliveryRate = 100000000, m_isAppLimited = False, m_interval = 10000000,
      rs_delivered = 1448, m_priorDelivered = 0, m_bytesLoss = 0, m_priorInFlight = 0,
      m_ackedSacked = 1448 \<rparr>"

definition uvs_ex :: uv_store where
  "uvs_ex = (\<lambda>a n. 7 / 2)"

text \<open>
  The object after the first \<open>CongestionStateSet (tcb, CA_OPEN)\<close>, after a later entry into
  PROBE_BW, and after a later entry into fast recovery (the socket stores the new congestion
  state in the control block once \<open>CongestionStateSet\<close> has returned).
\<close>

definition b_open :: "DataRate TcpBbr" where
  "b_open = fst (CongestionStateSet maxW 0 (TcpBbr_new maxW 0) tcb_ex CA_OPEN)"

definition b_probe_bw :: "DataRate TcpBbr" where
  "b_probe_bw = fst (EnterProbeBW 0 b_open uvs_ex)"

definition b_recovery :: "DataRate TcpBbr" where
  "b_recovery = fst (CongestionStateSet maxW 0 b_open tcb_ex CA_RECOVERY)"

definition tcb_recovery :: TcpSocketState where
  "tcb_recovery = (snd (CongestionStateSet maxW 0 b_open tcb_ex CA_RECOVERY))\<lparr>m_congState := CA_RECOVERY\<rparr>"


text \<open>
  Two acknowledgment batches of one segment each: the first, unmarked, stays inside the
  observation window that it opens; the second, marked, reaches its boundary.
\<close>

definition tcb_batch1 :: TcpSocketState where
  "tcb_batch1 = tcb_ex\<lparr>m_nextTxSequence := 2897, m_lastAckedSeq := 1449\<rparr>"

definition tcb_batch2 :: TcpSocketState where
  "tcb_batch2 = tcb_ex\<lparr>m_nextTxSequence := 5793, m_lastAckedSeq := 2897,
                        m_ecnState := ECN_ECE_RCVD\<rparr>"

text \<open>
  A rate sample that acknowledges two segments, and the object after
  \<open>UpdateAckAggregation\<close> has processed it right after initialisation.
\<close>

definition rs_two :: TcpRateSample where
  "rs_two = rs_ex\<lparr>m_ackedSacked := 2896\<rparr>"

definition b_agg :: "DataRate TcpBbr" where
  "b_agg = UpdateAckAggregation maxW 0 b_open tcb_ex rs_two"

subsection \<open>Observations used in the statements\<close>

text \<open>The pacing gains that consecutive cycle advances, at the given times, produce.\<close>

fun cycle_gains :: "Time list \<Rightarrow> 'f TcpBbr \<Rightarrow> real list" where
  "cycle_gains [] b = []"
| "cycle_gains (t # ts) b =
     m_pacingGain (AdvanceCyclePhase t b) # cycle_gains ts (AdvanceCyclePhase t b)"

text \<open>
  Consecutive calls of \<open>PktsAcked\<close>, one per acknowledgment batch (control block, number of
  segments, round-trip time). \<open>window_boundary\<close> is the boundary against which a call
  tests the last acknowledged sequence number: \<open>m_nextSeq\<close>, or the next sequence to
  transmit when the call is the first one. \<open>window_open\<close> says that every batch of a list
  leaves the observation window open; \<open>acked_total\<close> and \<open>acked_marked\<close> are the bytes that
  the batches acknowledge, in all and under \<open>ECN_ECE_RCVD\<close>, in \<open>uint32_t\<close>.
\<close>

type_synonym batch = "TcpSocketState \<times> u32 \<times> Time"

definition window_boundary :: "'f TcpBbr \<Rightarrow> TcpSocketState \<Rightarrow> SequenceNumber32" where
  "window_boundary b tcb = (if m_nextSeqFlag b then m_nextSeq b else m_nextTxSequence tcb)"

fun PktsAcked_run :: "batch list \<Rightarrow> 'f TcpBbr \<Rightarrow> 'f TcpBbr" where
  "PktsAcked_run [] b = b"
| "PktsAcked_run ((tcb, n, rtt) # xs) b = PktsAcked_run xs (fst (PktsAcked b tcb n rtt))"

fun window_open :: "batch list \<Rightarrow> 'f TcpBbr \<Rightarrow> bool" where
  "window_open [] b = True"
| "window_open ((tcb, n, rtt) # xs) b =
     (\<not> seq_ge (m_lastAckedSeq tcb) (window_boundary b tcb) \<and>
      window_open xs (fst (PktsAcked b tcb n rtt)))"

fun acked_total :: "batch list \<Rightarrow> u32" where
  "acked_total [] = 0"
| "acked_total ((tcb, n, rtt) # xs) = n * m_segmentSize tcb + acked_total xs"

fun acked_marked :: "batch list \<Rightarrow> u32" where
  "acked_marked [] = 0"
| "acked_marked ((tcb, n, rtt) # xs) =
     (if m_ecnState tcb = ECN_ECE_RCVD then n * m_segmentSize tcb else 0) + acked_marked xs"

text \<open>
  The first two steps of \<open>UpdateModelAndState\<close>, \<open>UpdateBottleneckBandwidth\<close> and then
  \<open>UpdateAckAggregation\<close>, over consecutive samples (time, control block, rate sample).
  \<open>round_counted\<close> says that \<open>UpdateAckAggregation\<close> passes its guard and finds \<open>m_roundStart\<close>
  set, which is when it ages the window of the extra-acked filter;
  \<open>counted_round_starts\<close> is the number of samples of a run for which this is so.
\<close>

type_synonym sample = "Time \<times> TcpSocketState \<times> TcpRateSample"

definition round_counted :: "'f TcpBbr \<Rightarrow> TcpRateSample \<Rightarrow> bool" where
  "round_counted b rs =
    (m_roundStart b \<and> m_extraAckedGain b \<noteq> 0 \<and> 0 < m_ackedSacked rs \<and> \<not> rs_delivered rs <s 0)"

fun ack_samples :: "'f WindowedFilter_ops \<Rightarrow> sample list \<Rightarrow> 'f TcpBbr \<Rightarrow> 'f TcpBbr" where
  "ack_samples W [] b = b"
| "ack_samples W ((now, tcb, rs) # xs) b =
     ack_samples W xs
       (UpdateAckAggregation W now (UpdateBottleneckBandwidth W b tcb rs) tcb rs)"

fun counted_round_starts :: "'f WindowedFilter_ops \<Rightarrow> sample list \<Rightarrow> 'f TcpBbr \<Rightarrow> nat" where
  "counted_round_starts W [] b = 0"
| "counted_round_starts W ((now, tcb, rs) # xs) b =
     (if round_counted (UpdateBottleneckBandwidth W b tcb rs) rs then 1 else 0)
     + counted_round_starts W xs
         (UpdateAckAggregation W now (UpdateBottleneckBandwidth W b tcb rs) tcb rs)"

section \<open>Properties\<close>

subsection \<open>Evaluation of the concrete inputs\<close>

lemma sdiv_ex: "(10000000 :: int) sdiv 1000000 = 10"
  by (simp add: signed_divide_int_def)

text \<open>
  The definitions of the rounded arithmetic are unfolded on closed terms only; the
  evaluations that the concrete inputs need are stated once.
\<close>

lemmas dbl_defs =
  round_double_def ulp_def binexp_def rne_def compute_bitlen Let_def
  dmul_def ddiv_def dadd_def dsub_def u32_to_double_def u64_to_double_def GetSeconds_def

lemma dbl_evals:
  "GetSeconds 10000000 = 5764607523034235 / 576460752303423488"
  "u32_to_double 115840 = 115840"
  "ddiv 115840 (5764607523034235 / 576460752303423488) = 11584000"
  "u64_to_double 11584000 = 11584000"
  "dmul (round_double (289 / 100)) 11584000 = 33477760"
  by (simp_all add: dbl_defs)

lemmas eval_defs =
  CongestionStateSet_def TcpBbr_new_def tcb_ex_def rs_ex_def maxW_def Let_def
  InitRoundCounting_def InitFullPipe_def EnterStartup_def SetBbrState_def InitPacingRate_def
  Time_Max_def MilliSeconds_def GetMilliSeconds_def sdiv_ex d2u64_def d2u32_def
  d2int_def GetBitRate_def Seconds_def SaveCwnd_def b_open_def dbl_evals

lemma b_open_fields:
  "m_minPipeCwnd b_open = 5792" "m_state b_open = BBR_STARTUP"
  "m_packetConservation b_open = False" "m_isPipeFilled b_open = False"
  "m_minRtt b_open = 10000000" "m_sendQuantum b_open = 1448"
  "m_maxBwFilter b_open = 11584000" "m_cWndGain b_open = round_double (289 / 100)"
  "m_extraAckedGain b_open = 1" "m_delivered b_open = 0" "m_isInitialized b_open"
  "m_alpha b_open = 1" "m_g b_open = 1 / 16" "m_ackedBytesTotal b_open = 0"
  "m_ackedBytesEcn b_open = 0" "m_nextSeqFlag b_open = False" "m_cycleIndex b_open = 0"
  by (simp_all add: eval_defs)

lemma b_probe_bw_fields:
  "m_cycleIndex b_probe_bw = 5" "m_pacingGain b_probe_bw = 1" "m_cWndGain b_probe_bw = 2"
  "m_state b_probe_bw = BBR_PROBE_BW" "m_minRtt b_probe_bw = 10000000"
  "m_sendQuantum b_probe_bw = 1448" "m_maxBwFilter b_probe_bw = 11584000"
  by (simp_all add: b_probe_bw_def EnterProbeBW_def AdvanceCyclePhase_def GAIN_CYCLE_LENGTH_def
        PACING_GAIN_CYCLE_def uvs_ex_def eval_defs)

lemma b_recovery_fields:
  "m_packetConservation b_recovery" "m_minPipeCwnd b_recovery = 5792"
  "m_state b_recovery = BBR_STARTUP"
  by (simp_all add: b_recovery_def eval_defs)

lemma tcb_recovery_fields:
  "m_congState tcb_recovery = CA_RECOVERY" "m_cWnd tcb_recovery = 1448"
  "m_bytesInFlight tcb_recovery = 0" "m_segmentSize tcb_recovery = 1448"
  by (simp_all add: tcb_recovery_def eval_defs)


subsection \<open>Setting the initial alpha\<close>

text \<open>
  C10. Once \<open>Init\<close> has run, \<open>InitializeDctcpAlpha\<close> aborts the program, whatever the state
  and the control block were; on an object on which \<open>Init\<close> has not run (\<open>m_initialized\<close> is
  false) it returns normally and has set \<open>m_alpha\<close> to its argument, changing nothing else.
\<close>

theorem InitializeDctcpAlpha_after_Init_aborts:
  "InitializeDctcpAlpha (fst (Init b tcb)) alpha
     = Inl (Abort ''DCTCP has already been initialized'')
   \<and> (\<not> m_initialized b \<longrightarrow> InitializeDctcpAlpha b alpha = Inr (b\<lparr>m_alpha := alpha\<rparr>))"
  by (simp add: InitializeDctcpAlpha_def Init_def)

theorem InitializeDctcpAlpha_witness:
  "\<not> m_initialized (TcpBbr_new maxW 0)
   \<and> InitializeDctcpAlpha (TcpBbr_new maxW 0) (1 / 2)
       = Inr ((TcpBbr_new maxW 0)\<lparr>m_alpha := 1 / 2\<rparr>)
   \<and> InitializeDctcpAlpha (fst (Init (TcpBbr_new maxW 0) tcb_ex)) (1 / 2)
       = Inl (Abort ''DCTCP has already been initialized'')"
  using InitializeDctcpAlpha_after_Init_aborts [of "TcpBbr_new maxW 0" tcb_ex "1 / 2"]
  by (simp add: TcpBbr_new_def)


subsection \<open>The floor of the congestion window\<close>

lemma ModulateCwndForRecovery_snd:
  "snd (ModulateCwndForRecovery b tcb rs) = m_packetConservation b"
  by (simp add: ModulateCwndForRecovery_def Let_def)

lemma ModulateCwndForProbeRTT_cWnd:
  "m_cWnd (ModulateCwndForProbeRTT b tcb) =
     (if m_state b = BBR_PROBE_RTT then min (m_cWnd tcb) (m_minPipeCwnd b) else m_cWnd tcb)"
  by (simp add: ModulateCwndForProbeRTT_def)

lemma UpdateTargetCwnd_fields:
  "m_state (UpdateTargetCwnd W b tcb) = m_state b"
  "m_minPipeCwnd (UpdateTargetCwnd W b tcb) = m_minPipeCwnd b"
  by (simp_all add: UpdateTargetCwnd_def)

text \<open>
  C1 (as amended). For a rate sample with a non-zero acked byte count, unless the congestion
  state is RECOVERY while packet conservation is on (where \<open>SetCwnd\<close> jumps over the floor),
  the congestion window after \<open>SetCwnd\<close> is at least \<open>m_minPipeCwnd\<close>, which \<open>SetCwnd\<close>
  leaves as it was; in PROBE_RTT it is exactly \<open>m_minPipeCwnd\<close>. The first
  \<open>CongestionStateSet (tcb, CA_OPEN)\<close> sets \<open>m_minPipeCwnd\<close> to four segments.
\<close>

theorem SetCwnd_floor_outside_packet_conservation:
  assumes "m_ackedSacked rs \<noteq> 0"
      and "\<not> (m_congState tcb = CA_RECOVERY \<and> m_packetConservation b)"
  shows "m_minPipeCwnd b \<le> m_cWnd (snd (SetCwnd W b tcb rs))
       \<and> m_minPipeCwnd (fst (SetCwnd W b tcb rs)) = m_minPipeCwnd b
       \<and> (m_state b = BBR_PROBE_RTT \<longrightarrow> m_cWnd (snd (SetCwnd W b tcb rs)) = m_minPipeCwnd b)
       \<and> (\<not> m_isInitialized c \<longrightarrow>
            m_minPipeCwnd (fst (CongestionStateSet W now c tcb CA_OPEN)) = 4 * m_segmentSize tcb)"
proof (intro conjI)
  show "m_minPipeCwnd b \<le> m_cWnd (snd (SetCwnd W b tcb rs))"
    using assms
    by (simp add: SetCwnd_def Let_def case_prod_beta ModulateCwndForRecovery_snd
          ModulateCwndForProbeRTT_cWnd UpdateTargetCwnd_fields)
  show "m_minPipeCwnd (fst (SetCwnd W b tcb rs)) = m_minPipeCwnd b"
    using assms
    by (simp add: SetCwnd_def Let_def case_prod_beta ModulateCwndForRecovery_snd
          UpdateTargetCwnd_fields)
  show "m_state b = BBR_PROBE_RTT \<longrightarrow> m_cWnd (snd (SetCwnd W b tcb rs)) = m_minPipeCwnd b"
    using assms
    by (simp add: SetCwnd_def Let_def case_prod_beta ModulateCwndForRecovery_snd
          ModulateCwndForProbeRTT_cWnd UpdateTargetCwnd_fields)
  show "\<not> m_isInitialized c \<longrightarrow>
          m_minPipeCwnd (fst (CongestionStateSet W now c tcb CA_OPEN)) = 4 * m_segmentSize tcb"
    by (simp add: CongestionStateSet_def Let_def case_prod_beta InitPacingRate_def
          EnterStartup_def SetBbrState_def InitFullPipe_def InitRoundCounting_def)
qed

theorem SetCwnd_floor_witness:
  "m_ackedSacked rs_ex \<noteq> 0
   \<and> \<not> (m_congState tcb_ex = CA_RECOVERY \<and> m_packetConservation b_open)
   \<and> \<not> m_isInitialized (TcpBbr_new maxW 0)
   \<and> m_minPipeCwnd b_open = 4 * m_segmentSize tcb_ex
   \<and> 5792 \<le> m_cWnd (snd (SetCwnd maxW b_open tcb_ex rs_ex))"
  using SetCwnd_floor_outside_packet_conservation
          [of rs_ex tcb_ex b_open maxW "TcpBbr_new maxW 0" 0]
  by (simp add: b_open_fields) (simp add: rs_ex_def tcb_ex_def TcpBbr_new_def)

text \<open>
  The claim as stated fails in fast recovery: after the object has been initialised and the
  connection has entered RECOVERY with nothing in flight, a sample that acknowledges one
  segment leaves the window at one segment, below the four segments of \<open>m_minPipeCwnd\<close>.
\<close>

theorem SetCwnd_packet_conservation_below_floor:
  "m_ackedSacked rs_ex \<noteq> 0
   \<and> m_congState tcb_recovery = CA_RECOVERY
   \<and> m_minPipeCwnd (fst (SetCwnd maxW b_recovery tcb_recovery rs_ex)) = 4 * m_segmentSize tcb_recovery
   \<and> m_cWnd (snd (SetCwnd maxW b_recovery tcb_recovery rs_ex)) = 1448
   \<and> m_cWnd (snd (SetCwnd maxW b_recovery tcb_recovery rs_ex))
       < m_minPipeCwnd (fst (SetCwnd maxW b_recovery tcb_recovery rs_ex))"
  by (simp add: SetCwnd_def ModulateCwndForRecovery_def ModulateCwndForProbeRTT_def Let_def
        b_recovery_fields tcb_recovery_fields) (simp add: rs_ex_def)


subsection \<open>The pacing-gain cycle\<close>

lemma unat_succ_mod8: "unat ((i + 1) mod 8 :: u32) = (unat i + 1) mod 8"
proof -
  have "unat ((i + 1) mod 8) = unat (i + 1) mod 8"
    by (simp add: unat_mod)
  also have "unat (i + 1) = (unat i + 1) mod 2 ^ 32"
    by (simp add: unat_word_ariths)
  also have "((unat i + 1) mod 2 ^ 32) mod 8 = (unat i + 1) mod 8"
    by (rule mod_mod_cancel) simp
  finally show ?thesis .
qed

lemma mod8_shift_Suc: "((u + 1) mod 8 + 1 + j) mod 8 = (u + 1 + Suc j) mod (8::nat)"
proof -
  have "((u + 1) mod 8 + 1 + j) mod 8 = ((u + 1) mod 8 + (1 + j)) mod 8"
    by (simp only: add.assoc)
  also have "\<dots> = (u + 1 + (1 + j)) mod 8"
    by (rule mod_add_left_eq)
  also have "u + 1 + (1 + j) = u + 1 + Suc j"
    by simp
  finally show ?thesis .
qed

lemma AdvanceCyclePhase_index:
  "m_cycleIndex (AdvanceCyclePhase t b) = (m_cycleIndex b + 1) mod 8"
  by (simp add: AdvanceCyclePhase_def GAIN_CYCLE_LENGTH_def Let_def)

lemma AdvanceCyclePhase_gain:
  "m_pacingGain (AdvanceCyclePhase t b) =
     PACING_GAIN_CYCLE ! ((unat (m_cycleIndex b) + 1) mod 8)"
  by (simp add: AdvanceCyclePhase_def GAIN_CYCLE_LENGTH_def Let_def unat_succ_mod8)

lemma AdvanceCyclePhase_gain_at_index:
  "m_pacingGain (AdvanceCyclePhase t b) =
     PACING_GAIN_CYCLE ! unat (m_cycleIndex (AdvanceCyclePhase t b))"
  by (simp add: AdvanceCyclePhase_def Let_def)

lemma length_cycle_gains: "length (cycle_gains ts b) = length ts"
  by (induction ts arbitrary: b) simp_all

lemma cycle_gains_nth:
  "k < length ts \<Longrightarrow>
   cycle_gains ts b ! k = PACING_GAIN_CYCLE ! ((unat (m_cycleIndex b) + 1 + k) mod 8)"
proof (induction ts arbitrary: b k)
  case Nil
  then show ?case by simp
next
  case (Cons t ts)
  show ?case
  proof (cases k)
    case 0
    then show ?thesis by (simp add: AdvanceCyclePhase_gain)
  next
    case (Suc j)
    with Cons.prems have "j < length ts" by simp
    from Cons.IH [OF this, of "AdvanceCyclePhase t b"]
    have "cycle_gains ts (AdvanceCyclePhase t b) ! j =
          PACING_GAIN_CYCLE ! (((unat (m_cycleIndex b) + 1) mod 8 + 1 + j) mod 8)"
      by (simp add: AdvanceCyclePhase_index unat_succ_mod8)
    also have "((unat (m_cycleIndex b) + 1) mod 8 + 1 + j) mod 8 =
               (unat (m_cycleIndex b) + 1 + Suc j) mod 8"
      by (rule mod8_shift_Suc)
    finally have "cycle_gains ts (AdvanceCyclePhase t b) ! j =
          PACING_GAIN_CYCLE ! ((unat (m_cycleIndex b) + 1 + Suc j) mod 8)" .
    then show ?thesis
      by (simp only: Suc cycle_gains.simps nth_Cons_Suc)
  qed
qed

lemma cycle_gains_rotate:
  assumes len: "length ts = 8"
  shows "cycle_gains ts b = rotate ((unat (m_cycleIndex b) + 1) mod 8) PACING_GAIN_CYCLE"
proof (rule nth_equalityI)
  show "length (cycle_gains ts b) =
        length (rotate ((unat (m_cycleIndex b) + 1) mod 8) PACING_GAIN_CYCLE)"
    by (simp add: length_cycle_gains len PACING_GAIN_CYCLE_def)
next
  fix k assume "k < length (cycle_gains ts b)"
  then have k: "k < 8" by (simp add: length_cycle_gains len)
  have "rotate ((unat (m_cycleIndex b) + 1) mod 8) PACING_GAIN_CYCLE ! k =
        PACING_GAIN_CYCLE ! (((unat (m_cycleIndex b) + 1) mod 8 + k) mod 8)"
    using k by (simp add: nth_rotate PACING_GAIN_CYCLE_def)
  also have "((unat (m_cycleIndex b) + 1) mod 8 + k) mod 8 =
             (unat (m_cycleIndex b) + 1 + k) mod 8"
    by (rule mod_add_left_eq)
  finally show "cycle_gains ts b ! k =
        rotate ((unat (m_cycleIndex b) + 1) mod 8) PACING_GAIN_CYCLE ! k"
    using k len by (simp add: cycle_gains_nth)
qed

text \<open>
  C3. Eight consecutive cycle advances, from any object, produce the gains
  5/4, 3/4, 1, 1, 1, 1, 1, 1 read cyclically from the position after the current cycle index.
  Each advance increments the index modulo 8 and sets the pacing gain to the cycle value at
  the new index. \<open>EnterProbeBW\<close> enters PROBE_BW, sets the index to
  \<open>GAIN_CYCLE_LENGTH - 1 - (int) v\<close> for the value \<open>v\<close> drawn from the random variable, and
  advances once at once.
\<close>

theorem PROBE_BW_gain_cycle:
  "(length ts = 8 \<longrightarrow>
      cycle_gains ts b =
        rotate ((unat (m_cycleIndex b) + 1) mod 8) [5 / 4, 3 / 4, 1, 1, 1, 1, 1, 1])
   \<and> m_cycleIndex (AdvanceCyclePhase t b) = (m_cycleIndex b + 1) mod 8
   \<and> m_pacingGain (AdvanceCyclePhase t b)
       = [5 / 4, 3 / 4, 1, 1, 1, 1, 1, 1] ! unat (m_cycleIndex (AdvanceCyclePhase t b))
   \<and> m_state (fst (EnterProbeBW now b uvs)) = BBR_PROBE_BW
   \<and> m_cycleIndex (fst (EnterProbeBW now b uvs))
       = (word_of_int (8 - 1 - d2int (uvs (m_uv b) 0)) + 1) mod 8
   \<and> m_pacingGain (fst (EnterProbeBW now b uvs))
       = [5 / 4, 3 / 4, 1, 1, 1, 1, 1, 1] ! unat (m_cycleIndex (fst (EnterProbeBW now b uvs)))"
proof (intro conjI impI)
  assume "length ts = 8"
  then show "cycle_gains ts b =
      rotate ((unat (m_cycleIndex b) + 1) mod 8) [5 / 4, 3 / 4, 1, 1, 1, 1, 1, 1]"
    using cycle_gains_rotate [of ts b] by (simp only: PACING_GAIN_CYCLE_def)
next
  show "m_cycleIndex (AdvanceCyclePhase t b) = (m_cycleIndex b + 1) mod 8"
    by (rule AdvanceCyclePhase_index)
next
  show "m_pacingGain (AdvanceCyclePhase t b)
       = [5 / 4, 3 / 4, 1, 1, 1, 1, 1, 1] ! unat (m_cycleIndex (AdvanceCyclePhase t b))"
    using AdvanceCyclePhase_gain_at_index [of t b] by (simp only: PACING_GAIN_CYCLE_def)
next
  show "m_state (fst (EnterProbeBW now b uvs)) = BBR_PROBE_BW"
    by (simp add: EnterProbeBW_def Let_def SetBbrState_def AdvanceCyclePhase_def)
next
  show "m_cycleIndex (fst (EnterProbeBW now b uvs))
       = (word_of_int (8 - 1 - d2int (uvs (m_uv b) 0)) + 1) mod 8"
    by (simp add: EnterProbeBW_def Let_def SetBbrState_def AdvanceCyclePhase_index
          GAIN_CYCLE_LENGTH_def)
next
  have "m_pacingGain (fst (EnterProbeBW now b uvs))
       = PACING_GAIN_CYCLE ! unat (m_cycleIndex (fst (EnterProbeBW now b uvs)))"
    by (simp add: EnterProbeBW_def Let_def AdvanceCyclePhase_gain_at_index)
  then show "m_pacingGain (fst (EnterProbeBW now b uvs))
       = [5 / 4, 3 / 4, 1, 1, 1, 1, 1, 1] ! unat (m_cycleIndex (fst (EnterProbeBW now b uvs)))"
    by (simp only: PACING_GAIN_CYCLE_def)
qed

theorem PROBE_BW_gain_cycle_witness:
  "length [1, 2, 3, 4, 5, 6, 7, 8 :: Time] = 8
   \<and> m_cycleIndex b_probe_bw = 5
   \<and> cycle_gains [1, 2, 3, 4, 5, 6, 7, 8] b_probe_bw = [1, 1, 5 / 4, 3 / 4, 1, 1, 1, 1]"
proof -
  have len: "length [1, 2, 3, 4, 5, 6, 7, 8 :: Time] = 8"
    by simp
  have rot: "rotate 6 [5 / 4, 3 / 4, 1, 1, 1, 1, 1, 1 :: real] = [1, 1, 5 / 4, 3 / 4, 1, 1, 1, 1]"
    by (simp add: numeral_eq_Suc)
  have pos: "(unat (m_cycleIndex b_probe_bw) + 1) mod 8 = 6"
    by (simp add: b_probe_bw_fields)
  have "length [1, 2, 3, 4, 5, 6, 7, 8 :: Time] = 8 \<longrightarrow>
        cycle_gains [1, 2, 3, 4, 5, 6, 7, 8] b_probe_bw =
        rotate ((unat (m_cycleIndex b_probe_bw) + 1) mod 8) [5 / 4, 3 / 4, 1, 1, 1, 1, 1, 1]"
    by (rule conjunct1 [OF PROBE_BW_gain_cycle [of "[1, 2, 3, 4, 5, 6, 7, 8]" b_probe_bw 0 0 uvs_ex]])
  from this len
  have "cycle_gains [1, 2, 3, 4, 5, 6, 7, 8] b_probe_bw =
        rotate ((unat (m_cycleIndex b_probe_bw) + 1) mod 8) [5 / 4, 3 / 4, 1, 1, 1, 1, 1, 1]"
    by (rule mp)
  then have "cycle_gains [1, 2, 3, 4, 5, 6, 7, 8] b_probe_bw = [1, 1, 5 / 4, 3 / 4, 1, 1, 1, 1]"
    unfolding pos rot .
  then show ?thesis
    using len b_probe_bw_fields(1) by (intro conjI)
qed


subsection \<open>The ECN estimator\<close>

lemma PktsAcked_cWndGain:
  "m_cWndGain (fst (PktsAcked b tcb n rtt)) =
    (if m_ecnState tcb = ECN_ECE_RCVD
     then if m_ectCodePoint tcb = Ect0 then min (5 / 2) (m_cWndGain b + 1 / 10)
          else if m_ectCodePoint tcb = Ect1 then max (3 / 2) (m_cWndGain b - 1 / 10)
          else m_cWndGain b
     else m_cWndGain b)"
  by (simp add: PktsAcked_def Reset_def Let_def)

text \<open>
  C6 (as amended). For a batch processed while the ECN state is \<open>ECN_ECE_RCVD\<close>, the cwnd
  gain becomes \<open>min (2.5, gain + 0.1)\<close> under ECT(0) and \<open>max (1.5, gain - 0.1)\<close> under
  ECT(1): the change is exactly +0.1 or -0.1 as long as the cap, respectively the floor, is
  not reached; the result is at most 2.5 under ECT(0) and at least 1.5 under ECT(1); and
  it lies in [1.5, 2.5] whenever the gain before the nudge did.
\<close>

theorem PktsAcked_cwnd_gain_nudge:
  assumes "m_ecnState tcb = ECN_ECE_RCVD"
  shows "(m_ectCodePoint tcb = Ect0 \<longrightarrow>
            m_cWndGain (fst (PktsAcked b tcb n rtt)) = min (5 / 2) (m_cWndGain b + 1 / 10)
            \<and> m_cWndGain (fst (PktsAcked b tcb n rtt)) \<le> 5 / 2
            \<and> (m_cWndGain b + 1 / 10 \<le> 5 / 2 \<longrightarrow>
                 m_cWndGain (fst (PktsAcked b tcb n rtt)) = m_cWndGain b + 1 / 10))
       \<and> (m_ectCodePoint tcb = Ect1 \<longrightarrow>
            m_cWndGain (fst (PktsAcked b tcb n rtt)) = max (3 / 2) (m_cWndGain b - 1 / 10)
            \<and> 3 / 2 \<le> m_cWndGain (fst (PktsAcked b tcb n rtt))
            \<and> (3 / 2 \<le> m_cWndGain b - 1 / 10 \<longrightarrow>
                 m_cWndGain (fst (PktsAcked b tcb n rtt)) = m_cWndGain b - 1 / 10))
       \<and> (3 / 2 \<le> m_cWndGain b \<and> m_cWndGain b \<le> 5 / 2 \<longrightarrow>
            3 / 2 \<le> m_cWndGain (fst (PktsAcked b tcb n rtt))
            \<and> m_cWndGain (fst (PktsAcked b tcb n rtt)) \<le> 5 / 2)"
  using assms unfolding PktsAcked_cWndGain by (auto simp add: min_def max_def)

theorem PktsAcked_cwnd_gain_nudge_witness:
  "m_ecnState (tcb_ex\<lparr>m_ecnState := ECN_ECE_RCVD\<rparr>) = ECN_ECE_RCVD
   \<and> m_ectCodePoint (tcb_ex\<lparr>m_ecnState := ECN_ECE_RCVD\<rparr>) = Ect0
   \<and> m_cWndGain b_probe_bw = 2
   \<and> m_cWndGain (fst (PktsAcked b_probe_bw (tcb_ex\<lparr>m_ecnState := ECN_ECE_RCVD\<rparr>) 1 10000000))
       = 21 / 10"
proof -
  have h: "m_ecnState (tcb_ex\<lparr>m_ecnState := ECN_ECE_RCVD\<rparr>) = ECN_ECE_RCVD"
    by simp
  have e: "m_ectCodePoint (tcb_ex\<lparr>m_ecnState := ECN_ECE_RCVD\<rparr>) = Ect0"
    by (simp add: tcb_ex_def)
  show ?thesis
    using PktsAcked_cwnd_gain_nudge [OF h, of b_probe_bw 1 10000000] e
    by (simp add: b_probe_bw_fields)
qed

text \<open>
  The claim as stated fails on a gain outside the interval: \<open>EnterProbeRTT\<close> sets the cwnd
  gain to 1, and a marked batch under ECT(0) then raises it to 1.1, which is below 1.5.
\<close>

theorem PktsAcked_cwnd_gain_below_interval:
  "m_cWndGain (EnterProbeRTT b_open) = 1
   \<and> m_ecnState (tcb_ex\<lparr>m_ecnState := ECN_ECE_RCVD\<rparr>) = ECN_ECE_RCVD
   \<and> m_ectCodePoint (tcb_ex\<lparr>m_ecnState := ECN_ECE_RCVD\<rparr>) = Ect0
   \<and> m_cWndGain (fst (PktsAcked (EnterProbeRTT b_open)
                        (tcb_ex\<lparr>m_ecnState := ECN_ECE_RCVD\<rparr>) 1 10000000)) = 11 / 10
   \<and> m_cWndGain (fst (PktsAcked (EnterProbeRTT b_open)
                        (tcb_ex\<lparr>m_ecnState := ECN_ECE_RCVD\<rparr>) 1 10000000)) < 3 / 2"
  by (simp add: PktsAcked_cWndGain EnterProbeRTT_def SetBbrState_def) (simp add: tcb_ex_def)

subsection \<open>Invalid rate samples\<close>

text \<open>
  C8 (as amended). For a rate sample with a negative delivered count or a zero interval,
  \<open>UpdateBottleneckBandwidth\<close> returns without changing the object: the bandwidth filter,
  the round count, the next-round-delivered threshold, the round-start flag and the
  packet-conservation flag (and every other member) keep their values.
\<close>

theorem UpdateBottleneckBandwidth_ignores_invalid:
  assumes "rs_delivered rs <s 0 \<or> m_interval rs = 0"
  shows "UpdateBottleneckBandwidth W b tcb rs = b"
  using assms by (auto simp add: UpdateBottleneckBandwidth_def IsZero_def)

theorem UpdateBottleneckBandwidth_ignores_invalid_witness:
  "rs_delivered (rs_ex\<lparr>rs_delivered := - 1\<rparr>) <s 0
   \<and> UpdateBottleneckBandwidth maxW b_open tcb_ex (rs_ex\<lparr>rs_delivered := - 1\<rparr>) = b_open
   \<and> m_interval (rs_ex\<lparr>m_interval := 0\<rparr>) = 0
   \<and> UpdateBottleneckBandwidth maxW b_open tcb_ex (rs_ex\<lparr>m_interval := 0\<rparr>) = b_open"
  using UpdateBottleneckBandwidth_ignores_invalid
          [of "rs_ex\<lparr>rs_delivered := - 1\<rparr>" maxW b_open tcb_ex]
        UpdateBottleneckBandwidth_ignores_invalid
          [of "rs_ex\<lparr>m_interval := 0\<rparr>" maxW b_open tcb_ex]
  by (simp add: word_sless_alt)

text \<open>
  The claim as stated fails on a negative interval: the test is \<open>IsZero\<close>, so a sample
  with a non-negative delivered count and an interval of -1 ns is processed, and here it
  starts a round and enters the filter.
\<close>

theorem UpdateBottleneckBandwidth_negative_interval_processed:
  "m_interval (rs_ex\<lparr>m_interval := - 1\<rparr>) \<le> 0
   \<and> m_roundCount (TcpBbr_new maxW 0) = 0
   \<and> m_roundCount (UpdateBottleneckBandwidth maxW (TcpBbr_new maxW 0) tcb_ex
                      (rs_ex\<lparr>m_interval := - 1\<rparr>)) = 1
   \<and> \<not> m_roundStart (TcpBbr_new maxW 0)
   \<and> m_roundStart (UpdateBottleneckBandwidth maxW (TcpBbr_new maxW 0) tcb_ex
                      (rs_ex\<lparr>m_interval := - 1\<rparr>))
   \<and> m_maxBwFilter (TcpBbr_new maxW 0) = 0
   \<and> m_maxBwFilter (UpdateBottleneckBandwidth maxW (TcpBbr_new maxW 0) tcb_ex
                      (rs_ex\<lparr>m_interval := - 1\<rparr>)) = 100000000"
  by (simp add: UpdateBottleneckBandwidth_def UpdateRound_def IsZero_def TcpBbr_new_def
        rs_ex_def maxW_def Let_def word_sless_alt)


subsection \<open>The in-flight target\<close>











subsection \<open>The marking fraction over an observation window\<close>

lemma PktsAcked_open:
  assumes "\<not> seq_ge (m_lastAckedSeq tcb) (window_boundary b tcb)"
  shows "m_alpha (fst (PktsAcked b tcb n rtt)) = m_alpha b"
    and "m_g (fst (PktsAcked b tcb n rtt)) = m_g b"
    and "m_ackedBytesTotal (fst (PktsAcked b tcb n rtt))
           = m_ackedBytesTotal b + n * m_segmentSize tcb"
    and "m_ackedBytesEcn (fst (PktsAcked b tcb n rtt))
           = m_ackedBytesEcn b
             + (if m_ecnState tcb = ECN_ECE_RCVD then n * m_segmentSize tcb else 0)"
    and "m_nextSeqFlag (fst (PktsAcked b tcb n rtt))"
    and "m_nextSeq (fst (PktsAcked b tcb n rtt)) = window_boundary b tcb"
  using assms by (auto simp add: PktsAcked_def window_boundary_def Let_def)

lemma PktsAcked_close:
  assumes "seq_ge (m_lastAckedSeq tcb) (window_boundary b tcb)"
  shows "m_alpha (fst (PktsAcked b tcb n rtt)) =
           (1 - m_g b) * m_alpha b
           + m_g b * (if m_ackedBytesTotal b + n * m_segmentSize tcb = 0 then 0
                      else real (unat (m_ackedBytesEcn b
                                       + (if m_ecnState tcb = ECN_ECE_RCVD
                                          then n * m_segmentSize tcb else 0)))
                           / real (unat (m_ackedBytesTotal b + n * m_segmentSize tcb)))"
    and "m_ackedBytesEcn (fst (PktsAcked b tcb n rtt)) = 0"
    and "m_ackedBytesTotal (fst (PktsAcked b tcb n rtt)) = 0"
    and "m_nextSeq (fst (PktsAcked b tcb n rtt)) = m_nextTxSequence tcb"
  using assms
  by (auto simp add: PktsAcked_def Reset_def window_boundary_def Let_def word_greater_zero_iff)

lemma PktsAcked_run_open:
  "window_open xs b \<Longrightarrow>
     m_alpha (PktsAcked_run xs b) = m_alpha b \<and>
     m_g (PktsAcked_run xs b) = m_g b \<and>
     m_ackedBytesTotal (PktsAcked_run xs b) = m_ackedBytesTotal b + acked_total xs \<and>
     m_ackedBytesEcn (PktsAcked_run xs b) = m_ackedBytesEcn b + acked_marked xs"
proof (induction xs arbitrary: b)
  case Nil
  then show ?case by simp
next
  case (Cons x xs)
  obtain tcb n rtt where x: "x = (tcb, n, rtt)" by (cases x)
  from Cons.prems x have o: "\<not> seq_ge (m_lastAckedSeq tcb) (window_boundary b tcb)"
    and r: "window_open xs (fst (PktsAcked b tcb n rtt))" by simp_all
  from Cons.IH [OF r] PktsAcked_open(1-4) [OF o, of n rtt]
  show ?case unfolding x by (simp add: add.assoc)
qed

lemma acked_total_snoc:
  "acked_total (xs @ [(tcb, n, rtt)]) = acked_total xs + n * m_segmentSize tcb"
  by (induction xs) auto

lemma acked_marked_snoc:
  "acked_marked (xs @ [(tcb, n, rtt)]) =
     acked_marked xs + (if m_ecnState tcb = ECN_ECE_RCVD then n * m_segmentSize tcb else 0)"
  by (induction xs) auto

text \<open>
  C5. Let the batches \<open>xs\<close> leave the observation window open, and let the next batch
  reach its boundary. Then that call of \<open>PktsAcked\<close> sets alpha to
  \<open>(1 - g) \<times> alpha + g \<times> (M / N)\<close>, where \<open>N\<close> and \<open>M\<close> are the total and the marked byte
  counts accumulated over all these batches (on top of what the counters held before
  them, which is 0 after a previous update), the fraction being 0 when \<open>N\<close> is 0; it clears
  both counters and moves the boundary to the next sequence to transmit. A batch that
  leaves the window open adds its bytes to the total counter and, under \<open>ECN_ECE_RCVD\<close>, to
  the marked counter, keeps alpha, and keeps (or, on the first call, sets) the boundary.
\<close>

theorem PktsAcked_alpha_over_window:
  assumes "window_open xs b"
      and "seq_ge (m_lastAckedSeq tcb) (window_boundary (PktsAcked_run xs b) tcb)"
  shows "(let N = m_ackedBytesTotal b + acked_total (xs @ [(tcb, n, rtt)]);
              M = m_ackedBytesEcn b + acked_marked (xs @ [(tcb, n, rtt)]);
              b' = fst (PktsAcked (PktsAcked_run xs b) tcb n rtt)
          in m_alpha b' = (1 - m_g b) * m_alpha b
                            + m_g b * (if N = 0 then 0 else real (unat M) / real (unat N))
           \<and> m_ackedBytesEcn b' = 0 \<and> m_ackedBytesTotal b' = 0
           \<and> m_nextSeq b' = m_nextTxSequence tcb)
       \<and> (\<not> seq_ge (m_lastAckedSeq tcb0) (window_boundary c tcb0) \<longrightarrow>
            m_alpha (fst (PktsAcked c tcb0 n0 rtt0)) = m_alpha c
            \<and> m_ackedBytesTotal (fst (PktsAcked c tcb0 n0 rtt0))
                = m_ackedBytesTotal c + n0 * m_segmentSize tcb0
            \<and> m_ackedBytesEcn (fst (PktsAcked c tcb0 n0 rtt0))
                = m_ackedBytesEcn c
                  + (if m_ecnState tcb0 = ECN_ECE_RCVD then n0 * m_segmentSize tcb0 else 0)
            \<and> m_nextSeq (fst (PktsAcked c tcb0 n0 rtt0)) = window_boundary c tcb0
            \<and> m_nextSeqFlag (fst (PktsAcked c tcb0 n0 rtt0)))"
proof (intro conjI impI)
  note run = PktsAcked_run_open [OF assms(1)]
  note cl = PktsAcked_close [OF assms(2), of n rtt]
  show "let N = m_ackedBytesTotal b + acked_total (xs @ [(tcb, n, rtt)]);
            M = m_ackedBytesEcn b + acked_marked (xs @ [(tcb, n, rtt)]);
            b' = fst (PktsAcked (PktsAcked_run xs b) tcb n rtt)
        in m_alpha b' = (1 - m_g b) * m_alpha b
                          + m_g b * (if N = 0 then 0 else real (unat M) / real (unat N))
         \<and> m_ackedBytesEcn b' = 0 \<and> m_ackedBytesTotal b' = 0
         \<and> m_nextSeq b' = m_nextTxSequence tcb"
    unfolding Let_def acked_total_snoc acked_marked_snoc cl
    using run by (simp add: add.assoc)
next
  assume o: "\<not> seq_ge (m_lastAckedSeq tcb0) (window_boundary c tcb0)"
  show "m_alpha (fst (PktsAcked c tcb0 n0 rtt0)) = m_alpha c"
    by (rule PktsAcked_open(1) [OF o])
  show "m_ackedBytesTotal (fst (PktsAcked c tcb0 n0 rtt0))
          = m_ackedBytesTotal c + n0 * m_segmentSize tcb0"
    by (rule PktsAcked_open(3) [OF o])
  show "m_ackedBytesEcn (fst (PktsAcked c tcb0 n0 rtt0))
          = m_ackedBytesEcn c
            + (if m_ecnState tcb0 = ECN_ECE_RCVD then n0 * m_segmentSize tcb0 else 0)"
    by (rule PktsAcked_open(4) [OF o])
  show "m_nextSeq (fst (PktsAcked c tcb0 n0 rtt0)) = window_boundary c tcb0"
    by (rule PktsAcked_open(6) [OF o])
  show "m_nextSeqFlag (fst (PktsAcked c tcb0 n0 rtt0))"
    by (rule PktsAcked_open(5) [OF o])
qed

theorem PktsAcked_alpha_over_window_witness:
  "window_open [(tcb_batch1, 1, 10000000)] b_open
   \<and> seq_ge (m_lastAckedSeq tcb_batch2)
        (window_boundary (PktsAcked_run [(tcb_batch1, 1, 10000000)] b_open) tcb_batch2)
   \<and> m_alpha b_open = 1
   \<and> m_alpha (fst (PktsAcked (PktsAcked_run [(tcb_batch1, 1, 10000000)] b_open)
                     tcb_batch2 1 10000000)) = 31 / 32"
proof -
  have o: "\<not> seq_ge (m_lastAckedSeq tcb_batch1) (window_boundary b_open tcb_batch1)"
    by (simp add: window_boundary_def b_open_fields tcb_batch1_def tcb_ex_def seq_ge_def
          seq_gt_def)
  then have h1: "window_open [(tcb_batch1, 1, 10000000)] b_open"
    by simp
  have "window_boundary (PktsAcked_run [(tcb_batch1, 1, 10000000)] b_open) tcb_batch2
          = window_boundary b_open tcb_batch1"
    using PktsAcked_open(5,6) [OF o, of 1 10000000] by (simp add: window_boundary_def)
  then have h2: "seq_ge (m_lastAckedSeq tcb_batch2)
        (window_boundary (PktsAcked_run [(tcb_batch1, 1, 10000000)] b_open) tcb_batch2)"
    by (simp add: window_boundary_def b_open_fields tcb_batch1_def tcb_batch2_def tcb_ex_def
          seq_ge_def)
  have "m_alpha (fst (PktsAcked (PktsAcked_run [(tcb_batch1, 1, 10000000)] b_open)
                     tcb_batch2 1 10000000)) = 31 / 32"
  proof -
    have f: "m_segmentSize tcb_batch1 = 1448" "m_segmentSize tcb_batch2 = 1448"
      "m_ecnState tcb_batch1 = ECN_IDLE" "m_ecnState tcb_batch2 = ECN_ECE_RCVD"
      by (simp_all add: tcb_batch1_def tcb_batch2_def tcb_ex_def)
    show ?thesis
      using conjunct1 [OF PktsAcked_alpha_over_window [OF h1 h2, of 1 10000000]]
      by (simp add: Let_def b_open_fields f)
  qed
  then show ?thesis
    using h1 h2 b_open_fields by (intro conjI) simp_all
qed


subsection \<open>Forking\<close>

text \<open>
  C9 (as amended). \<open>Fork\<close> returns an object in which every member named in the initialiser
  list of the copy constructor, other than \<open>m_minRtt\<close>, has the value it has in the parent;
  \<open>m_minRtt\<close> is \<open>Time::Max ()\<close>, and the members absent from the list are back at their
  defaults: the mode is STARTUP, the bandwidth filter is empty, both extra-acked slots are
  0, the pacing margin is 0.01 and the round-trip jitter is 0. The pointer \<open>m_uv\<close> is copied,
  so parent and child draw from the same random variable object: a draw made by the child
  in \<open>EnterProbeBW\<close> advances the sequence from which the parent will draw.
\<close>

theorem Fork_copies_all_but_min_rtt:
  "Fork W b = b\<lparr>m_state := BBR_STARTUP, m_maxBwFilter := wf_default W,
                 m_minRtt := Time_Max, m_extraAcked := [0, 0],
                 m_pacingMargin := round_double (1 / 100), m_rttJitter := 0\<rparr>
   \<and> m_uv (Fork W b) = m_uv b
   \<and> snd (EnterProbeBW now (Fork W b) uvs) (m_uv b) = (\<lambda>n. uvs (m_uv b) (Suc n))"
  by (simp add: Fork_def TcpBbr_copy_def EnterProbeBW_def SetBbrState_def Let_def)

text \<open>
  The min-RTT estimate is not copied: the parent holds the 10 ms it took from the control
  block at initialisation, the child holds \<open>Time::Max ()\<close>.
\<close>

theorem Fork_resets_min_rtt:
  "m_minRtt b_open = 10000000 \<and> m_minRtt (Fork maxW b_open) = 9223372036854775807"
  by (simp add: b_open_fields Fork_def TcpBbr_copy_def Time_Max_def)

end
